theory Spec2Isabelle
  imports Main "HOL-Library.Sublist" "HOL-Library.AList"
begin

section \<open>The document record\<close>

text \<open>
  \<^verbatim>\<open>build_html\<close> receives whatever \<^verbatim>\<open>json.loads\<close> returned: None, a bool, an int, a
  float, a str, a list or a dict. A dict is kept as the list of its items in insertion
  order; a lookup finds the first item with the key. A float is carried by the text that
  \<^verbatim>\<open>str\<close> gives for it and by its truth value (whether it is nonzero): the renderer
  looks at nothing else of a float. A string is a list of 8-bit characters, read as the
  code points U+0000 to U+00FF.
\<close>

datatype json =
    JNone
  | JBool bool
  | JInt int
  | JFloat string bool
  | JStr string
  | JList "json list"
  | JDict "(string \<times> json) list"

text \<open>The exceptions the renderer can raise, as values.\<close>

datatype py_error = AttributeError | KeyError | TypeError

definition rbind :: "py_error + 'a \<Rightarrow> ('a \<Rightarrow> py_error + 'b) \<Rightarrow> py_error + 'b" where
  "rbind m f = (case m of Inl e \<Rightarrow> Inl e | Inr v \<Rightarrow> f v)"

subsection \<open>Built-in operations of Python\<close>

text \<open>\<^verbatim>\<open>sep.join(xs)\<close>\<close>

fun join :: "string \<Rightarrow> string list \<Rightarrow> string" where
  "join sep [] = []"
| "join sep [x] = x"
| "join sep (x # y # ys) = x @ sep @ join sep (y # ys)"

text \<open>\<^verbatim>\<open>str\<close> of an int: decimal digits, with a minus sign when negative.\<close>

fun str_nat :: "nat \<Rightarrow> string" where
  "str_nat n = (if n < 10 then [char_of (48 + n)] else str_nat (n div 10) @ [char_of (48 + n mod 10)])"

definition str_int :: "int \<Rightarrow> string" where
  "str_int i = (if i < 0 then CHR ''-'' # str_nat (nat (- i)) else str_nat (nat i))"

text \<open>
  \<^verbatim>\<open>repr\<close> of a str, as it appears inside the \<^verbatim>\<open>str\<close> of a list or dict: double
  quotes when the text has a single quote and no double quote, else single quotes; the
  quote and the backslash escaped; tab, newline and return as letters; every other
  character that is not printable as \<^verbatim>\<open>\xNN\<close>.
\<close>

definition hex_digit :: "nat \<Rightarrow> char" where
  "hex_digit n = (if n < 10 then char_of (48 + n) else char_of (87 + n))"

definition repr_char :: "char \<Rightarrow> char \<Rightarrow> string" where
  "repr_char q c =
     (let n = (of_char c :: nat) in
      if c = q \<or> n = 92 then [CHR 0x5C, c]
      else if n = 9 then [CHR 0x5C, CHR ''t'']
      else if n = 10 then [CHR 0x5C, CHR ''n'']
      else if n = 13 then [CHR 0x5C, CHR ''r'']
      else if n < 32 \<or> (127 \<le> n \<and> n \<le> 160) \<or> n = 173
        then [CHR 0x5C, CHR ''x'', hex_digit (n div 16), hex_digit (n mod 16)]
      else [c])"

definition repr_str :: "string \<Rightarrow> string" where
  "repr_str s =
     (let q = (if CHR 0x27 \<in> set s \<and> CHR 0x22 \<notin> set s then CHR 0x22 else CHR 0x27)
      in q # concat (map (repr_char q) s) @ [q])"

fun py_repr :: "json \<Rightarrow> string" where
  "py_repr JNone = ''None''"
| "py_repr (JBool b) = (if b then ''True'' else ''False'')"
| "py_repr (JInt i) = str_int i"
| "py_repr (JFloat r nz) = r"
| "py_repr (JStr s) = repr_str s"
| "py_repr (JList xs) = ''['' @ join '', '' (map py_repr xs) @ '']''"
| "py_repr (JDict kvs) =
     ''{'' @ join '', '' (map (\<lambda>kv. repr_str (fst kv) @ '': '' @ py_repr (snd kv)) kvs) @ ''}''"

text \<open>\<^verbatim>\<open>str(x)\<close>, which is also what an f-string field \<^verbatim>\<open>{x}\<close> inserts.\<close>

definition py_str :: "json \<Rightarrow> string" where
  "py_str x = (case x of JStr s \<Rightarrow> s | _ \<Rightarrow> py_repr x)"

text \<open>The truth value of \<^verbatim>\<open>x\<close> in \<^verbatim>\<open>if x\<close>.\<close>

fun truthy :: "json \<Rightarrow> bool" where
  "truthy JNone = False"
| "truthy (JBool b) = b"
| "truthy (JInt i) = (i \<noteq> 0)"
| "truthy (JFloat r nz) = nz"
| "truthy (JStr s) = (s \<noteq> [])"
| "truthy (JList xs) = (xs \<noteq> [])"
| "truthy (JDict kvs) = (kvs \<noteq> [])"

text \<open>
  \<^verbatim>\<open>x.get(k, default)\<close>: only a dict has the method; on anything else the attribute
  lookup raises.
\<close>

definition py_get :: "json \<Rightarrow> string \<Rightarrow> json \<Rightarrow> py_error + json" where
  "py_get x k dflt =
     (case x of
        JDict kvs \<Rightarrow> (case map_of kvs k of None \<Rightarrow> Inr dflt | Some v \<Rightarrow> Inr v)
      | _ \<Rightarrow> Inl AttributeError)"

text \<open>\<^verbatim>\<open>x[k]\<close> with a string key, as the renderer uses it on the record.\<close>

definition py_subscript :: "json \<Rightarrow> string \<Rightarrow> py_error + json" where
  "py_subscript x k =
     (case x of
        JDict kvs \<Rightarrow> (case map_of kvs k of None \<Rightarrow> Inl KeyError | Some v \<Rightarrow> Inr v)
      | _ \<Rightarrow> Inl TypeError)"

text \<open>\<^verbatim>\<open>for sec in x\<close>: the elements of a list, the keys of a dict, the characters of a str.\<close>

definition py_iter :: "json \<Rightarrow> py_error + json list" where
  "py_iter x =
     (case x of
        JList xs \<Rightarrow> Inr xs
      | JDict kvs \<Rightarrow> Inr (map (\<lambda>kv. JStr (fst kv)) kvs)
      | JStr s \<Rightarrow> Inr (map (\<lambda>c. JStr [c]) s)
      | _ \<Rightarrow> Inl TypeError)"

text \<open>
  \<^verbatim>\<open>str.strip()\<close> removes white space at both ends: tab to carriage return, the four
  separators U+001C to U+001F, the space, U+0085 and U+00A0.
\<close>

definition is_space :: "char \<Rightarrow> bool" where
  "is_space c =
     (let n = (of_char c :: nat) in (9 \<le> n \<and> n \<le> 13) \<or> (28 \<le> n \<and> n \<le> 32) \<or> n = 133 \<or> n = 160)"

definition py_strip :: "string \<Rightarrow> string" where
  "py_strip s = rev (dropWhile is_space (rev (dropWhile is_space s)))"

text \<open>\<^verbatim>\<open>x.strip()\<close> on a value: only a str has the method.\<close>

definition strip_method :: "json \<Rightarrow> py_error + string" where
  "strip_method x = (case x of JStr s \<Rightarrow> Inr (py_strip s) | _ \<Rightarrow> Inl AttributeError)"

text \<open>\<^verbatim>\<open>str.lower()\<close>: A to Z and the capital letters of U+00C0 to U+00DE move up by 32.\<close>

definition lower_char :: "char \<Rightarrow> char" where
  "lower_char c =
     (let n = (of_char c :: nat) in
      if (65 \<le> n \<and> n \<le> 90) \<or> (192 \<le> n \<and> n \<le> 222 \<and> n \<noteq> 215) then char_of (n + 32) else c)"

definition py_lower :: "string \<Rightarrow> string" where
  "py_lower s = map lower_char s"

definition lower_method :: "json \<Rightarrow> py_error + string" where
  "lower_method x = (case x of JStr s \<Rightarrow> Inr (py_lower s) | _ \<Rightarrow> Inl AttributeError)"

text \<open>
  \<^verbatim>\<open>html.escape(s, quote=True)\<close>: five replacements one after the other, the ampersand
  first.
\<close>

definition replace_char :: "char \<Rightarrow> string \<Rightarrow> string \<Rightarrow> string" where
  "replace_char c r s = concat (map (\<lambda>x. if x = c then r else [x]) s)"

definition html_escape :: "string \<Rightarrow> string" where
  "html_escape s =
     replace_char (CHR 0x27) ''&#x27;''
       (replace_char (CHR 0x22) ''&quot;''
         (replace_char CHR ''>'' ''&gt;''
           (replace_char CHR ''<'' ''&lt;''
             (replace_char CHR ''&'' ''&amp;'' s))))"

section \<open>scpdocgen.py\<close>

subsection \<open>The icon table\<close>

definition ACS_ICON_BASE :: string where
  "ACS_ICON_BASE = ''https://scp-wiki.wdfiles.com/local--files/component:anomaly-class-bar''"

definition ACS_ICON_MAP :: "(string \<times> string) list" where
  "ACS_ICON_MAP =
     [(''safe'', ''safe-icon.svg''),
      (''euclid'', ''euclid-icon.svg''),
      (''keter'', ''keter-icon.svg''),
      (''neutralized'', ''neutralized-icon.svg''),
      (''pending'', ''pending-icon.svg''),
      (''explained'', ''explained-icon.svg''),
      (''esoteric'', ''esoteric-icon.svg''),
      (''thaumiel'', ''thaumiel-icon.svg''),
      (''apollyon'', ''apollyon-icon.svg''),
      (''archon'', ''archon-icon.svg''),
      (''cernunnos'', ''cernunnos-icon.svg''),
      (''decommissioned'', ''decommissioned-icon.svg''),
      (''hiemal'', ''hiemal-icon.svg''),
      (''tiamat'', ''tiamat-icon.svg''),
      (''ticonderoga'', ''ticonderoga-icon.svg''),
      (''uncontained'', ''uncontained-icon.svg''),
      (''dark'', ''dark-icon.svg''),
      (''vlam'', ''vlam-icon.svg''),
      (''keneq'', ''keneq-icon.svg''),
      (''ekhi'', ''ekhi-icon.svg''),
      (''amida'', ''amida-icon.svg''),
      (''none'', ''notice-icon.svg''),
      (''notice'', ''notice-icon.svg''),
      (''caution'', ''caution-icon.svg''),
      (''warning'', ''warning-icon.svg''),
      (''danger'', ''danger-icon.svg''),
      (''critical'', ''critical-icon.svg'')]"

text \<open>
  \<^verbatim>\<open>acs_icon_url\<close>: lower-case the value (which raises on anything but a str), look it
  up, and give no URL when the table has no file name for it.
\<close>

definition acs_icon_url :: "json \<Rightarrow> py_error + string option" where
  "acs_icon_url v =
     rbind (lower_method v) (\<lambda>low.
       case map_of ACS_ICON_MAP low of
         None \<Rightarrow> Inr None
       | Some filename \<Rightarrow>
           if filename = [] then Inr None else Inr (Some (ACS_ICON_BASE @ ''/'' @ filename)))"

subsection \<open>Utilities\<close>

definition esc :: "json \<Rightarrow> string" where
  "esc s = html_escape (py_str s)"

text \<open>
  The generator of \<^verbatim>\<open>to_paragraphs\<close>: an item is kept when \<^verbatim>\<open>str(p).strip()\<close> is
  not empty, and a kept item is wrapped after \<^verbatim>\<open>p.strip()\<close>, the method of the item
  itself.
\<close>

fun paragraphs :: "json list \<Rightarrow> py_error + string list" where
  "paragraphs [] = Inr []"
| "paragraphs (p # ps) =
     (if py_strip (py_str p) \<noteq> []
      then rbind (strip_method p) (\<lambda>s.
           rbind (paragraphs ps) (\<lambda>rest.
           Inr ((''<p>'' @ esc (JStr s) @ ''</p>'') # rest)))
      else paragraphs ps)"

definition to_paragraphs :: "json \<Rightarrow> py_error + string" where
  "to_paragraphs body =
     (case body of
        JNone \<Rightarrow> Inr []
      | JStr s \<Rightarrow> rbind (paragraphs [body]) (\<lambda>ps. Inr (join ''\<newline>'' ps))
      | JList items \<Rightarrow> rbind (paragraphs items) (\<lambda>ps. Inr (join ''\<newline>'' ps))
      | _ \<Rightarrow> rbind (paragraphs [JStr (py_str body)]) (\<lambda>ps. Inr (join ''\<newline>'' ps)))"

subsection \<open>Header renderers\<close>

text \<open>
  Each f-string of the source is a function of the values of its replacement fields,
  written line by line as in the source.
\<close>

type_synonym markup = string

definition classic_header_fstring :: "markup \<Rightarrow> markup \<Rightarrow> markup \<Rightarrow> markup \<Rightarrow> markup" where
  \<open>classic_header_fstring title subtitle item_number object_class =
     ''\<newline>'' @
     ''<section class="doc-header">\<newline>'' @
     ''  <div class="doc-title">'' @ title @ ''</div>\<newline>'' @
     ''  '' @ subtitle @ ''\<newline>'' @
     ''  <div class="meta-lines">\<newline>'' @
     ''    <div><span class="meta-key">Item #:</span> '' @ item_number @ ''</div>\<newline>'' @
     ''    <div><span class="meta-key">Object Class:</span> '' @ object_class @ ''</div>\<newline>'' @
     ''  </div>\<newline>'' @
     ''</section>\<newline>''\<close>

text \<open>
  The subtitle field of both headers: the division when \<^verbatim>\<open>data.get("subtitle")\<close> is
  true, the empty string otherwise.
\<close>

definition subtitle_div :: "json \<Rightarrow> py_error + string" where
  \<open>subtitle_div data =
     rbind (py_get data ''subtitle'' JNone) (\<lambda>s.
       if truthy s
       then rbind (py_subscript data ''subtitle'') (\<lambda>v.
              Inr (''<div class='doc-subtitle'>'' @ esc v @ ''</div>''))
       else Inr [])\<close>

definition render_classic_header :: "json \<Rightarrow> py_error + string" where
  "render_classic_header data =
     rbind (py_get data ''classic'' (JDict [])) (\<lambda>classic.
     rbind (py_get data ''title'' (JStr ''SCP-XXXX'')) (\<lambda>fallback.
     rbind (py_get classic ''item_number'' fallback) (\<lambda>item_number.
     rbind (py_get classic ''object_class'' (JStr ''Euclid'')) (\<lambda>object_class.
     rbind (py_get data ''title'' item_number) (\<lambda>title.
     rbind (subtitle_div data) (\<lambda>subtitle.
     Inr (py_strip
       (classic_header_fstring (esc title) subtitle (esc item_number) (esc object_class)))))))))"

definition badge_fstring :: "markup \<Rightarrow> markup \<Rightarrow> markup \<Rightarrow> markup" where
  \<open>badge_fstring icon label v =
     ''\<newline>'' @
     ''<div class="badge badge--acs">\<newline>'' @
     ''  <img\<newline>'' @
     ''    src="'' @ icon @ ''"\<newline>'' @
     ''    alt="'' @ label @ '': '' @ v @ ''"\<newline>'' @
     ''    class="badge__icon"\<newline>'' @
     ''    loading="lazy"\<newline>'' @
     ''    referrerpolicy="no-referrer"\<newline>'' @
     ''  >\<newline>'' @
     ''  <div class="badge__text">\<newline>'' @
     ''    <div class="badge__label">'' @ label @ ''</div>\<newline>'' @
     ''    <div class="badge__value">'' @ v @ ''</div>\<newline>'' @
     ''  </div>\<newline>'' @
     ''</div>\<newline>''\<close>

definition acs_badge :: "string \<Rightarrow> json \<Rightarrow> py_error + string" where
  "acs_badge label v =
     rbind (acs_icon_url v) (\<lambda>icon.
       case icon of
         None \<Rightarrow> Inr []
       | Some url \<Rightarrow>
           if url = [] then Inr []
           else Inr (py_strip (badge_fstring url (esc (JStr label)) (esc v))))"

definition acs_header_fstring ::
  "markup \<Rightarrow> markup \<Rightarrow> markup \<Rightarrow> markup \<Rightarrow> markup \<Rightarrow> markup \<Rightarrow> markup \<Rightarrow> markup \<Rightarrow> markup \<Rightarrow> markup" where
  \<open>acs_header_fstring title subtitle item_number clearance memo b1 b2 b3 b4 =
     ''\<newline>'' @
     ''<section class="doc-header">\<newline>'' @
     ''  <div class="doc-title">'' @ title @ ''</div>\<newline>'' @
     ''  '' @ subtitle @ ''\<newline>'' @
     ''  <div class="acs-bar">\<newline>'' @
     ''    <div class="acs-top">\<newline>'' @
     ''      <div class="acs-item"><span class="acs-k">Item #</span>'' @ item_number @ ''</div>\<newline>'' @
     ''      <div class="acs-item"><span class="acs-k">Clearance</span>'' @ clearance @ ''</div>\<newline>'' @
     ''      <!-- '' @ memo @ '' -->\<newline>'' @
     ''    </div>\<newline>'' @
     ''    <div class="acs-badges">\<newline>'' @
     ''      '' @ b1 @ ''\<newline>'' @
     ''      '' @ b2 @ ''\<newline>'' @
     ''      '' @ b3 @ ''\<newline>'' @
     ''      '' @ b4 @ ''\<newline>'' @
     ''    </div>\<newline>'' @
     ''  </div>\<newline>'' @
     ''</section>\<newline>''\<close>

text \<open>The memo field: the link when \<^verbatim>\<open>memo_url\<close> is true, the empty string otherwise.\<close>

definition memo_link :: "json \<Rightarrow> string" where
  \<open>memo_link memo_url =
     (if truthy memo_url
      then ''<a class='memo-link' href='' @ [CHR 0x27] @ esc memo_url @ '''>Link to memo</a>''
      else [])\<close>

definition clearance_line :: "json \<Rightarrow> json \<Rightarrow> string" where
  "clearance_line clearance_level clearance_label =
     ''Level '' @ py_str clearance_level @
     (if truthy clearance_label then '': '' @ py_str clearance_label else [])"

definition render_acs_header :: "json \<Rightarrow> py_error + string" where
  "render_acs_header data =
     rbind (py_get data ''acs'' (JDict [])) (\<lambda>acs.
     rbind (py_get data ''title'' (JStr ''SCP-XXXX'')) (\<lambda>title.
     rbind (py_get acs ''item_number'' title) (\<lambda>item_number.
     rbind (py_get acs ''clearance_level'' (JInt 2)) (\<lambda>clearance_level.
     rbind (py_get acs ''clearance_label'' (JStr [])) (\<lambda>clearance_label.
     rbind (py_get acs ''containment_class'' (JStr ''euclid'')) (\<lambda>containment.
     rbind (py_get acs ''secondary_class'' (JStr ''none'')) (\<lambda>secondary.
     rbind (py_get acs ''disruption_class'' (JStr ''none'')) (\<lambda>disruption.
     rbind (py_get acs ''risk_class'' (JStr ''notice'')) (\<lambda>risk.
     rbind (py_get acs ''memo_url'' JNone) (\<lambda>memo_url.
     rbind (subtitle_div data) (\<lambda>subtitle.
     rbind (acs_badge ''Containment'' containment) (\<lambda>b1.
     rbind (acs_badge ''Secondary'' secondary) (\<lambda>b2.
     rbind (acs_badge ''Disruption'' disruption) (\<lambda>b3.
     rbind (acs_badge ''Risk'' risk) (\<lambda>b4.
     Inr (py_strip
       (acs_header_fstring (esc title) subtitle (esc item_number)
          (esc (JStr (clearance_line clearance_level clearance_label)))
          (memo_link memo_url) b1 b2 b3 b4)))))))))))))))))"

subsection \<open>Sections, footer, page\<close>

definition section_fstring :: "markup \<Rightarrow> markup \<Rightarrow> markup \<Rightarrow> markup" where
  \<open>section_fstring cls heading paras =
     ''\<newline>'' @
     ''<section class="'' @ cls @ ''">\<newline>'' @
     ''  <h2>'' @ heading @ ''</h2>\<newline>'' @
     ''  '' @ paras @ ''\<newline>'' @
     ''</section>\<newline>''\<close>

text \<open>The body of the loop of \<^verbatim>\<open>render_sections\<close>: the block appended for one section.\<close>

definition render_section :: "json \<Rightarrow> py_error + string" where
  "render_section sec =
     rbind (py_get sec ''kind'' JNone) (\<lambda>kind.
     let cls = ''section'' @ (if kind = JStr ''log'' then '' section--log'' else []) in
     rbind (py_get sec ''heading'' (JStr ''Section'')) (\<lambda>heading.
     rbind (py_get sec ''body'' JNone) (\<lambda>body.
     rbind (to_paragraphs body) (\<lambda>paras.
     Inr (py_strip (section_fstring cls (esc heading) paras))))))"

fun section_blocks :: "json list \<Rightarrow> py_error + string list" where
  "section_blocks [] = Inr []"
| "section_blocks (sec # secs) =
     rbind (render_section sec) (\<lambda>block.
     rbind (section_blocks secs) (\<lambda>out. Inr (block # out)))"

definition render_sections :: "json \<Rightarrow> py_error + string" where
  "render_sections data =
     rbind (py_get data ''sections'' (JList [])) (\<lambda>sections.
     rbind (py_iter sections) (\<lambda>secs.
     rbind (section_blocks secs) (\<lambda>out.
     Inr (join ''\<newline>'' out))))"

definition footer_fstring :: "markup \<Rightarrow> markup \<Rightarrow> markup \<Rightarrow> markup" where
  \<open>footer_fstring left center right =
     ''\<newline>'' @
     ''<footer class="doc-footer">\<newline>'' @
     ''  <span>'' @ left @ ''</span>\<newline>'' @
     ''  <span>'' @ center @ ''</span>\<newline>'' @
     ''  <span>'' @ right @ ''</span>\<newline>'' @
     ''</footer>\<newline>''\<close>

text \<open>The two defaults of the footer are the guillemets U+00AB and U+00BB.\<close>

definition render_footer :: "json \<Rightarrow> py_error + string" where
  "render_footer data =
     rbind (py_get data ''footer'' (JDict [])) (\<lambda>foot.
     rbind (py_get foot ''left'' (JStr [CHR 0xAB])) (\<lambda>left.
     rbind (py_get data ''title'' (JStr ''SCP'')) (\<lambda>fallback.
     rbind (py_get foot ''center'' fallback) (\<lambda>center.
     rbind (py_get foot ''right'' (JStr [CHR 0xBB])) (\<lambda>right.
     Inr (py_strip (footer_fstring (esc left) (esc center) (esc right))))))))"

definition page_style :: string where
  \<open>page_style =
     ''body { background:#0c0d10; color:#e8e8ee; font:15px/1.5 system-ui,sans-serif; }\<newline>'' @
     ''.doc { max-width:960px; margin:40px auto; padding:24px; background:#121420; border-radius:16px; }\<newline>'' @
     ''.doc-title { font-size:26px; font-weight:800; }\<newline>'' @
     ''.meta-key { color:#b7b7c8; font-weight:700; }\<newline>'' @
     ''.acs-bar { margin-top:14px; padding:12px; border:1px solid rgba(255,255,255,.15); border-radius:12px; }\<newline>'' @
     ''.acs-badges { display:grid; grid-template-columns:repeat(4,1fr); gap:10px; }\<newline>'' @
     ''.badge--acs { display:flex; gap:10px; align-items:center; border:1px solid rgba(255,255,255,.15); padding:8px; border-radius:10px; }\<newline>'' @
     ''.badge__icon { width:28px; height:28px; }\<newline>'' @
     ''.section { margin-top:20px; }\<newline>'' @
     ''.section--log p { font-family:monospace; background:rgba(0,0,0,.25); padding:8px; border-radius:8px; }\<newline>'' @
     ''.doc-footer { display:flex; justify-content:space-between; margin-top:30px; color:#b7b7c8; font-size:12px; }\<newline>''\<close>

definition page_fstring :: "markup \<Rightarrow> markup \<Rightarrow> markup \<Rightarrow> markup \<Rightarrow> markup" where
  \<open>page_fstring title header sections footer =
     ''<!doctype html>\<newline>'' @
     ''<html lang="en">\<newline>'' @
     ''<head>\<newline>'' @
     ''<meta charset="utf-8">\<newline>'' @
     ''<title>'' @ title @ ''</title>\<newline>'' @
     ''<style>\<newline>'' @
     page_style @
     ''</style>\<newline>'' @
     ''</head>\<newline>'' @
     ''<body>\<newline>'' @
     ''<article class="doc">\<newline>'' @
     header @ ''\<newline>'' @
     sections @ ''\<newline>'' @
     footer @ ''\<newline>'' @
     ''</article>\<newline>'' @
     ''</body>\<newline>'' @
     ''</html>\<newline>''\<close>

definition build_html :: "json \<Rightarrow> py_error + string" where
  "build_html data =
     rbind (py_get data ''header_mode'' JNone) (\<lambda>header_mode.
     rbind (if header_mode = JStr ''acs''
            then render_acs_header data
            else render_classic_header data) (\<lambda>header.
     rbind (py_get data ''title'' (JStr ''SCP Document'')) (\<lambda>title.
     rbind (render_sections data) (\<lambda>sections.
     rbind (render_footer data) (\<lambda>footer.
     Inr (page_fstring (esc title) header sections footer))))))"

section \<open>Observations on a record and on the output\<close>

text \<open>
  The value a field resolves to when defaults go by the absence of the key alone: the
  value stored under the key, whatever it is, and the default only when there is none.
\<close>

definition resolve :: "(string \<times> json) list \<Rightarrow> string \<Rightarrow> json \<Rightarrow> json" where
  "resolve kvs k dflt = (case map_of kvs k of None \<Rightarrow> dflt | Some v \<Rightarrow> v)"

text \<open>An axis value has an icon when its lower-cased form is a key of the icon table.\<close>

definition has_icon :: "string \<Rightarrow> bool" where
  "has_icon v = (py_lower v \<in> set (map fst ACS_ICON_MAP))"

text \<open>The number of places of a text at which a pattern starts.\<close>

fun occurrences :: "string \<Rightarrow> string \<Rightarrow> nat" where
  "occurrences p [] = 0"
| "occurrences p (c # s) = (if prefix p (c # s) then 1 else 0) + occurrences p s"

text \<open>A badge is counted by its opening tag.\<close>

definition badge_open :: string where
  \<open>badge_open = ''<div class="badge badge--acs">''\<close>

text \<open>The record of the example in section 8 of the specification.\<close>

definition example_record :: json where
  "example_record =
     JDict [(''title'', JStr ''SCP-999''),
            (''header_mode'', JStr ''acs''),
            (''acs'', JDict [(''clearance_level'', JInt 3),
                             (''clearance_label'', JStr ''Site Director'')]),
            (''sections'',
               JList [JDict [(''heading'', JStr ''Description''),
                             (''body'', JList [JStr ''Line one.'', JStr '''', JStr '' '',
                                               JStr ''Line two.''])]])]"

text \<open>
  What a reader of the page can see: the text with its comments removed. A comment runs
  from \<^verbatim>\<open><!--\<close> to the next \<^verbatim>\<open>-->\<close>; the flag tells whether the text starts inside one.
\<close>

fun visible :: "bool \<Rightarrow> string \<Rightarrow> string" where
  "visible in_comment [] = []"
| "visible in_comment (c # s) =
     (if in_comment
      then (if prefix ''-->'' (c # s) then visible False (drop 2 s) else visible True s)
      else (if prefix ''<!--'' (c # s) then visible True (drop 3 s) else c # visible False s))"

text \<open>
  The shape of a record that the renderer is written for: the record is a dict; the
  sub-record of the selected header is a dict (\<^verbatim>\<open>acs\<close> with string axis values, or
  \<^verbatim>\<open>classic\<close>); \<^verbatim>\<open>footer\<close> is a dict; \<^verbatim>\<open>sections\<close> is a list of dicts; a body that
  is a list has only strings. Every key may be missing.
\<close>

definition is_dict :: "json \<Rightarrow> bool" where
  "is_dict x = (case x of JDict kvs \<Rightarrow> True | _ \<Rightarrow> False)"

definition is_str :: "json \<Rightarrow> bool" where
  "is_str x = (case x of JStr s \<Rightarrow> True | _ \<Rightarrow> False)"

definition body_ok :: "json \<Rightarrow> bool" where
  "body_ok body = (case body of JList items \<Rightarrow> list_all is_str items | _ \<Rightarrow> True)"

definition section_ok :: "json \<Rightarrow> bool" where
  "section_ok sec = (case sec of JDict s \<Rightarrow> body_ok (resolve s ''body'' JNone) | _ \<Rightarrow> False)"

definition axes_ok :: "(string \<times> json) list \<Rightarrow> bool" where
  "axes_ok a \<longleftrightarrow>
     is_str (resolve a ''containment_class'' (JStr ''euclid'')) \<and>
     is_str (resolve a ''secondary_class'' (JStr ''none'')) \<and>
     is_str (resolve a ''disruption_class'' (JStr ''none'')) \<and>
     is_str (resolve a ''risk_class'' (JStr ''notice''))"

definition well_shaped :: "json \<Rightarrow> bool" where
  "well_shaped r =
     (case r of
        JDict d \<Rightarrow>
          (if resolve d ''header_mode'' JNone = JStr ''acs''
           then (case resolve d ''acs'' (JDict []) of JDict a \<Rightarrow> axes_ok a | _ \<Rightarrow> False)
           else is_dict (resolve d ''classic'' (JDict []))) \<and>
          is_dict (resolve d ''footer'' (JDict [])) \<and>
          (case resolve d ''sections'' (JList []) of
             JList secs \<Rightarrow> list_all section_ok secs
           | _ \<Rightarrow> False)
      | _ \<Rightarrow> False)"

text \<open>
  An ampersand of an escaped text starts one of the five entities that
  \<^verbatim>\<open>html.escape\<close> writes.
\<close>

definition entities :: "string list" where
  "entities = [''&amp;'', ''&lt;'', ''&gt;'', ''&quot;'', ''&#x27;'']"

fun amp_ok :: "string \<Rightarrow> bool" where
  "amp_ok [] = True"
| "amp_ok (c # s) = ((c = CHR ''&'' \<longrightarrow> list_ex (\<lambda>e. prefix e (c # s)) entities) \<and> amp_ok s)"

text \<open>
  The markup of a page all of whose inserted values are escaped: the smallest set of
  texts that has every escaped text and is closed under the f-strings of the source, each
  stripped as the source strips it, under the three wrappers that the source puts around
  a value (subtitle, memo link, paragraph) and under joining with a newline. A badge has
  the URL of an icon of the table, and a section one of its two classes.
\<close>

inductive_set escaped_markup :: "string set" where
  escaped: "html_escape s \<in> escaped_markup"
| lines: "x \<in> escaped_markup \<Longrightarrow> y \<in> escaped_markup \<Longrightarrow> x @ ''\<newline>'' @ y \<in> escaped_markup"
| subtitle: \<open>e \<in> escaped_markup \<Longrightarrow> ''<div class='doc-subtitle'>'' @ e @ ''</div>'' \<in> escaped_markup\<close>
| memo: \<open>e \<in> escaped_markup \<Longrightarrow>
     ''<a class='memo-link' href='' @ [CHR 0x27] @ e @ '''>Link to memo</a>'' \<in> escaped_markup\<close>
| para: "e \<in> escaped_markup \<Longrightarrow> ''<p>'' @ e @ ''</p>'' \<in> escaped_markup"
| classic: "t \<in> escaped_markup \<Longrightarrow> s \<in> escaped_markup \<Longrightarrow> i \<in> escaped_markup \<Longrightarrow>
     c \<in> escaped_markup \<Longrightarrow> py_strip (classic_header_fstring t s i c) \<in> escaped_markup"
| badge: "f \<in> snd ` set ACS_ICON_MAP \<Longrightarrow> l \<in> escaped_markup \<Longrightarrow> v \<in> escaped_markup \<Longrightarrow>
     py_strip (badge_fstring (ACS_ICON_BASE @ ''/'' @ f) l v) \<in> escaped_markup"
| acs: "t \<in> escaped_markup \<Longrightarrow> s \<in> escaped_markup \<Longrightarrow> i \<in> escaped_markup \<Longrightarrow>
     c \<in> escaped_markup \<Longrightarrow> m \<in> escaped_markup \<Longrightarrow> b1 \<in> escaped_markup \<Longrightarrow>
     b2 \<in> escaped_markup \<Longrightarrow> b3 \<in> escaped_markup \<Longrightarrow> b4 \<in> escaped_markup \<Longrightarrow>
     py_strip (acs_header_fstring t s i c m b1 b2 b3 b4) \<in> escaped_markup"
| sect: "cls = ''section'' \<or> cls = ''section section--log'' \<Longrightarrow> h \<in> escaped_markup \<Longrightarrow>
     p \<in> escaped_markup \<Longrightarrow> py_strip (section_fstring cls h p) \<in> escaped_markup"
| footer: "l \<in> escaped_markup \<Longrightarrow> c \<in> escaped_markup \<Longrightarrow> r \<in> escaped_markup \<Longrightarrow>
     py_strip (footer_fstring l c r) \<in> escaped_markup"
| page: "t \<in> escaped_markup \<Longrightarrow> h \<in> escaped_markup \<Longrightarrow> s \<in> escaped_markup \<Longrightarrow>
     f \<in> escaped_markup \<Longrightarrow> page_fstring t h s f \<in> escaped_markup"

text \<open>
  What the characters of a text show of it: as many \<^verbatim>\<open><\<close> as \<^verbatim>\<open>>\<close>, and the double and
  the single quotes in pairs.
\<close>

definition balanced :: "string \<Rightarrow> bool" where
  "balanced m \<longleftrightarrow>
     count_list m CHR ''<'' = count_list m CHR ''>'' \<and>
     even (count_list m (CHR 0x22)) \<and> even (count_list m (CHR 0x27))"

section \<open>Basic facts\<close>

lemma rbind_Inr [simp]: "rbind (Inr v) f = f v"
  by (simp add: rbind_def)

lemma rbind_Inl [simp]: "rbind (Inl e) f = Inl e"
  by (simp add: rbind_def)

lemma rbind_eq_Inr: "rbind m f = Inr y \<longleftrightarrow> (\<exists>v. m = Inr v \<and> f v = Inr y)"
  by (cases m) simp_all

lemma py_get_dict [simp]: "py_get (JDict kvs) k dflt = Inr (resolve kvs k dflt)"
  by (simp add: py_get_def resolve_def split: option.splits)

lemma has_icon_iff: "has_icon v \<longleftrightarrow> map_of ACS_ICON_MAP (py_lower v) \<noteq> None"
  by (simp add: has_icon_def map_of_eq_None_iff)

subsection \<open>Escaping\<close>

text \<open>The five replacements in a row amount to one replacement per character.\<close>

lemma html_escape_char:
  "html_escape s =
     concat (map (\<lambda>c. if c = CHR ''&'' then ''&amp;'' else if c = CHR ''<'' then ''&lt;''
       else if c = CHR ''>'' then ''&gt;'' else if c = CHR 0x22 then ''&quot;''
       else if c = CHR 0x27 then ''&#x27;'' else [c]) s)"
  by (induction s) (simp_all add: html_escape_def replace_char_def)

lemma html_escape_set:
  "CHR ''<'' \<notin> set (html_escape s)" "CHR ''>'' \<notin> set (html_escape s)"
  "CHR 0x22 \<notin> set (html_escape s)" "CHR 0x27 \<notin> set (html_escape s)"
  by (auto simp: html_escape_char split: if_splits)

lemma esc_set:
  "CHR ''<'' \<notin> set (esc v)" "CHR ''>'' \<notin> set (esc v)"
  "CHR 0x22 \<notin> set (esc v)" "CHR 0x27 \<notin> set (esc v)"
  by (simp_all add: esc_def html_escape_set)

subsection \<open>What \<^verbatim>\<open>.strip()\<close> does to the f-strings\<close>

text \<open>
  Every stripped f-string starts with a newline and a tag and ends with a tag and a
  newline, so the call removes exactly the first and the last character.
\<close>

lemma strip_badge:
  "py_strip (badge_fstring url l v) = butlast (tl (badge_fstring url l v))"
  by (simp add: py_strip_def badge_fstring_def is_space_def butlast_append)

lemma strip_acs_header:
  "py_strip (acs_header_fstring t s i c m b1 b2 b3 b4) =
   butlast (tl (acs_header_fstring t s i c m b1 b2 b3 b4))"
  by (simp add: py_strip_def acs_header_fstring_def is_space_def butlast_append)

subsection \<open>Badges\<close>

lemma icon_file:
  "map_of ACS_ICON_MAP k = Some f \<Longrightarrow> f \<noteq> [] \<and> CHR ''<'' \<notin> set f"
  by (auto simp: ACS_ICON_MAP_def split: if_splits)

lemma base_no_lt: "CHR ''<'' \<notin> set ACS_ICON_BASE"
  by (simp add: ACS_ICON_BASE_def)

lemma acs_badge_str:
  "acs_badge l (JStr v) =
     Inr (case map_of ACS_ICON_MAP (py_lower v) of
            None \<Rightarrow> []
          | Some f \<Rightarrow>
              butlast (tl (badge_fstring (ACS_ICON_BASE @ ''/'' @ f) (esc (JStr l)) (esc (JStr v)))))"
  by (auto simp: acs_badge_def acs_icon_url_def lower_method_def strip_badge
      dest: icon_file split: option.splits)

lemma subtitle_div_dict:
  "subtitle_div (JDict d) =
     Inr (if truthy (resolve d ''subtitle'' JNone)
          then ''<div class='doc-subtitle'>'' @ esc (resolve d ''subtitle'' JNone) @ ''</div>''
          else [])"
  by (auto simp: subtitle_div_def py_subscript_def resolve_def split: option.splits)

subsection \<open>Counting badges\<close>

lemma prefix_badge_open:
  \<open>prefix badge_open s = prefix ''<div class="badge badge--acs">'' s\<close>
  by (simp add: badge_open_def)

lemma occ_step:
  "occurrences badge_open (c # s) =
     (if prefix badge_open (c # s) then 1 else 0) + occurrences badge_open s"
  by simp

lemma occ_skip:
  "CHR ''<'' \<notin> set e \<Longrightarrow> occurrences badge_open (e @ r) = occurrences badge_open r"
  by (induction e) (auto simp: badge_open_def)

lemma occ_badge_markup:
  "CHR ''<'' \<notin> set url \<Longrightarrow>
   occurrences badge_open (butlast (tl (badge_fstring url (esc l) (esc v))) @ r) =
   1 + occurrences badge_open r"
  by (simp add: badge_fstring_def prefix_badge_open occ_skip esc_set butlast_append
        del: occurrences.simps(2) add: occ_step)

lemma occ_badge:
  assumes "acs_badge l (JStr v) = Inr b"
  shows "occurrences badge_open (b @ r) = (if has_icon v then 1 else 0) + occurrences badge_open r"
proof (cases "map_of ACS_ICON_MAP (py_lower v)")
  case None
  with assms show ?thesis by (simp add: acs_badge_str has_icon_iff)
next
  case (Some f)
  then have "CHR ''<'' \<notin> set (ACS_ICON_BASE @ ''/'' @ f)"
    using icon_file [OF Some] base_no_lt by simp
  then have occ: "occurrences badge_open
      (butlast (tl (badge_fstring (ACS_ICON_BASE @ ''/'' @ f) (esc (JStr l)) (esc (JStr v)))) @ r) =
      1 + occurrences badge_open r"
    by (rule occ_badge_markup)
  have b: "b = butlast (tl (badge_fstring (ACS_ICON_BASE @ ''/'' @ f) (esc (JStr l)) (esc (JStr v))))"
    using assms Some by (simp add: acs_badge_str)
  show ?thesis
    unfolding b occ using Some by (simp add: has_icon_iff)
qed

lemma occ_subtitle:
  "subtitle_div (JDict d) = Inr s \<Longrightarrow>
   occurrences badge_open (s @ r) = occurrences badge_open r"
  by (auto simp: subtitle_div_dict prefix_badge_open occ_skip esc_set
      simp del: occurrences.simps(2) simp add: occ_step)

lemma occ_memo:
  "occurrences badge_open (memo_link m @ r) = occurrences badge_open r"
  by (auto simp: memo_link_def prefix_badge_open occ_skip esc_set
      simp del: occurrences.simps(2) simp add: occ_step)

lemma occ_acs_header:
  assumes "subtitle_div (JDict d) = Inr s"
    and "acs_badge l1 (JStr v1) = Inr b1" and "acs_badge l2 (JStr v2) = Inr b2"
    and "acs_badge l3 (JStr v3) = Inr b3" and "acs_badge l4 (JStr v4) = Inr b4"
  shows "occurrences badge_open
           (butlast (tl (acs_header_fstring (esc t) s (esc i) (esc c) (memo_link m) b1 b2 b3 b4))) =
         length (filter has_icon [v1, v2, v3, v4])"
  by (simp add: acs_header_fstring_def prefix_badge_open occ_skip esc_set butlast_append
        occ_subtitle [OF assms(1)] occ_memo occ_badge [OF assms(2)] occ_badge [OF assms(3)]
        occ_badge [OF assms(4)] occ_badge [OF assms(5)]
        del: occurrences.simps(2) add: occ_step)

text \<open>
  The ACS header of a record whose four axis values are strings: it is produced, and it
  has one badge for each axis value that has an icon.
\<close>

lemma acs_header_badge_count:
  assumes acs: "resolve d ''acs'' (JDict []) = JDict a"
    and v1: "resolve a ''containment_class'' (JStr ''euclid'') = JStr v1"
    and v2: "resolve a ''secondary_class'' (JStr ''none'') = JStr v2"
    and v3: "resolve a ''disruption_class'' (JStr ''none'') = JStr v3"
    and v4: "resolve a ''risk_class'' (JStr ''notice'') = JStr v4"
  shows "\<exists>h. render_acs_header (JDict d) = Inr h \<and>
             occurrences badge_open h = length (filter has_icon [v1, v2, v3, v4])"
proof -
  obtain s where s: "subtitle_div (JDict d) = Inr s"
    by (simp add: subtitle_div_dict)
  obtain b1 where b1: "acs_badge ''Containment'' (JStr v1) = Inr b1"
    by (simp add: acs_badge_str)
  obtain b2 where b2: "acs_badge ''Secondary'' (JStr v2) = Inr b2"
    by (simp add: acs_badge_str)
  obtain b3 where b3: "acs_badge ''Disruption'' (JStr v3) = Inr b3"
    by (simp add: acs_badge_str)
  obtain b4 where b4: "acs_badge ''Risk'' (JStr v4) = Inr b4"
    by (simp add: acs_badge_str)
  show ?thesis
    by (simp add: render_acs_header_def acs v1 v2 v3 v4 s b1 b2 b3 b4 strip_acs_header
          occ_acs_header [OF s b1 b2 b3 b4])
qed

subsection \<open>The ACS header of a record with a dict under \<^verbatim>\<open>acs\<close>\<close>

text \<open>
  Every \<^verbatim>\<open>.get\<close> of the header succeeds on a dict, so the header is the f-string
  filled with the resolved fields; only the four badges can still raise.
\<close>

lemma acs_header_dict:
  assumes "resolve d ''acs'' (JDict []) = JDict a"
  shows "render_acs_header (JDict d) =
     rbind (acs_badge ''Containment'' (resolve a ''containment_class'' (JStr ''euclid''))) (\<lambda>b1.
     rbind (acs_badge ''Secondary'' (resolve a ''secondary_class'' (JStr ''none''))) (\<lambda>b2.
     rbind (acs_badge ''Disruption'' (resolve a ''disruption_class'' (JStr ''none''))) (\<lambda>b3.
     rbind (acs_badge ''Risk'' (resolve a ''risk_class'' (JStr ''notice''))) (\<lambda>b4.
     Inr (py_strip
       (acs_header_fstring
          (esc (resolve d ''title'' (JStr ''SCP-XXXX'')))
          (projr (subtitle_div (JDict d)))
          (esc (resolve a ''item_number'' (resolve d ''title'' (JStr ''SCP-XXXX''))))
          (esc (JStr (clearance_line (resolve a ''clearance_level'' (JInt 2))
                        (resolve a ''clearance_label'' (JStr [])))))
          (memo_link (resolve a ''memo_url'' JNone)) b1 b2 b3 b4))))))"
  by (simp add: render_acs_header_def subtitle_div_dict assms)

text \<open>The badges of the four default axis values.\<close>

lemma default_badges:
  "acs_badge ''Containment'' (JStr ''euclid'') =
     Inr (py_strip (badge_fstring (ACS_ICON_BASE @ ''/euclid-icon.svg'') ''Containment'' ''euclid''))"
  "acs_badge ''Secondary'' (JStr ''none'') =
     Inr (py_strip (badge_fstring (ACS_ICON_BASE @ ''/notice-icon.svg'') ''Secondary'' ''none''))"
  "acs_badge ''Disruption'' (JStr ''none'') =
     Inr (py_strip (badge_fstring (ACS_ICON_BASE @ ''/notice-icon.svg'') ''Disruption'' ''none''))"
  "acs_badge ''Risk'' (JStr ''notice'') =
     Inr (py_strip (badge_fstring (ACS_ICON_BASE @ ''/notice-icon.svg'') ''Risk'' ''notice''))"
  by code_simp+

subsection \<open>Comments\<close>

lemma vis_out_step:
  "visible False (c # s) =
     (if prefix ''<!--'' (c # s) then visible True (drop 3 s) else c # visible False s)"
  by simp

lemma vis_in_step:
  "visible True (c # s) =
     (if prefix ''-->'' (c # s) then visible False (drop 2 s) else visible True s)"
  by simp

lemma vis_skip: "CHR ''<'' \<notin> set e \<Longrightarrow> visible False (e @ r) = e @ visible False r"
  by (induction e) auto

lemma vis_comment_skip:
  "CHR ''>'' \<notin> set e \<Longrightarrow> c \<noteq> CHR ''-'' \<Longrightarrow> c \<noteq> CHR ''>'' \<Longrightarrow>
   visible True (e @ c # r) = visible True (c # r)"
proof (induction e)
  case Nil
  then show ?case by simp
next
  case (Cons x e)
  then have np: "\<not> prefix ''-->'' (x # e @ c # r)"
    by (cases e; cases "tl e") auto
  have "visible True ((x # e) @ c # r) = visible True (e @ c # r)"
    unfolding append_Cons vis_in_step using np by (simp only: if_False)
  also have "\<dots> = visible True (c # r)"
    using Cons by simp
  finally show ?case .
qed

lemma style_no_lt: "CHR ''<'' \<notin> set page_style"
  by (simp add: page_style_def)

lemma vis_memo:
  "visible True (memo_link m @ CHR '' '' # CHR ''-'' # CHR ''-'' # CHR ''>'' # r) = visible False r"
  by (simp add: memo_link_def vis_comment_skip esc_set del: visible.simps(2) add: vis_in_step)

subsection \<open>The page around the memo comment\<close>

text \<open>
  A page with an ACS header is a text before the memo comment, the comment, and a text
  after it; the two texts do not depend on the memo, and the text before it has no
  comment of its own, so the comment opened by the template is closed by the template.
\<close>

lemma resolve_update_other:
  "k \<noteq> k' \<Longrightarrow> resolve (AList.update k' v al) k dflt = resolve al k dflt"
  by (simp add: resolve_def update_conv')

lemma resolve_update_same: "resolve (AList.update k v al) k dflt = v"
  by (simp add: resolve_def update_conv')

lemma page_memo_comment:
  assumes "CHR ''<'' \<notin> set tt" and "CHR ''<'' \<notin> set t" and "CHR ''<'' \<notin> set i"
    and "CHR ''<'' \<notin> set c"
    and "s = [] \<or> (\<exists>v. s = ''<div class='doc-subtitle'>'' @ esc v @ ''</div>'')"
  shows \<open>\<exists>pre post. \<forall>m.
      page_fstring tt (py_strip (acs_header_fstring t s i c (memo_link m) b1 b2 b3 b4)) secs foot =
        pre @ ''<!-- '' @ memo_link m @ '' -->'' @ post \<and>
      visible False (pre @ ''<!-- '' @ memo_link m @ '' -->'' @ post) = pre @ visible False post\<close>
proof -
  let ?pre = \<open>''<!doctype html>\<newline>'' @
     ''<html lang="en">\<newline>'' @
     ''<head>\<newline>'' @
     ''<meta charset="utf-8">\<newline>'' @
     ''<title>'' @ tt @ ''</title>\<newline>'' @
     ''<style>\<newline>'' @
     page_style @
     ''</style>\<newline>'' @
     ''</head>\<newline>'' @
     ''<body>\<newline>'' @
     ''<article class="doc">\<newline>'' @
     ''<section class="doc-header">\<newline>'' @
     ''  <div class="doc-title">'' @ t @ ''</div>\<newline>'' @
     ''  '' @ s @ ''\<newline>'' @
     ''  <div class="acs-bar">\<newline>'' @
     ''    <div class="acs-top">\<newline>'' @
     ''      <div class="acs-item"><span class="acs-k">Item #</span>'' @ i @ ''</div>\<newline>'' @
     ''      <div class="acs-item"><span class="acs-k">Clearance</span>'' @ c @ ''</div>\<newline>'' @
     ''      ''\<close>
  let ?post = \<open>''\<newline>'' @
     ''    </div>\<newline>'' @
     ''    <div class="acs-badges">\<newline>'' @
     ''      '' @ b1 @ ''\<newline>'' @
     ''      '' @ b2 @ ''\<newline>'' @
     ''      '' @ b3 @ ''\<newline>'' @
     ''      '' @ b4 @ ''\<newline>'' @
     ''    </div>\<newline>'' @
     ''  </div>\<newline>'' @
     ''</section>'' @ ''\<newline>'' @
     secs @ ''\<newline>'' @
     foot @ ''\<newline>'' @
     ''</article>\<newline>'' @
     ''</body>\<newline>'' @
     ''</html>\<newline>''\<close>
  have a: \<open>page_fstring tt (py_strip (acs_header_fstring t s i c (memo_link m) b1 b2 b3 b4)) secs foot =
        ?pre @ ''<!-- '' @ memo_link m @ '' -->'' @ ?post\<close> for m
    unfolding strip_acs_header
    by (simp add: page_fstring_def acs_header_fstring_def butlast_append)
  have b: \<open>visible False (?pre @ ''<!-- '' @ memo_link m @ '' -->'' @ ?post) = ?pre @ visible False ?post\<close> for m
    using assms
    by (auto simp: vis_skip vis_memo style_no_lt esc_set
        simp del: visible.simps(2) simp add: vis_out_step vis_in_step)
  show ?thesis
    by (rule exI [of _ ?pre], rule exI [of _ ?post], intro allI conjI a b)
qed


lemma subtitle_shape:
  "projr (subtitle_div (JDict d)) = [] \<or>
   (\<exists>v. projr (subtitle_div (JDict d)) = ''<div class='doc-subtitle'>'' @ esc v @ ''</div>'')"
  by (auto simp: subtitle_div_dict)

lemma build_html_acs_dict:
  assumes mode: "resolve d ''header_mode'' JNone = JStr ''acs''"
    and acs: "resolve d ''acs'' (JDict []) = JDict a"
  shows "build_html (JDict d) =
     rbind (acs_badge ''Containment'' (resolve a ''containment_class'' (JStr ''euclid''))) (\<lambda>b1.
     rbind (acs_badge ''Secondary'' (resolve a ''secondary_class'' (JStr ''none''))) (\<lambda>b2.
     rbind (acs_badge ''Disruption'' (resolve a ''disruption_class'' (JStr ''none''))) (\<lambda>b3.
     rbind (acs_badge ''Risk'' (resolve a ''risk_class'' (JStr ''notice''))) (\<lambda>b4.
     rbind (render_sections (JDict d)) (\<lambda>sections.
     rbind (render_footer (JDict d)) (\<lambda>footer.
     Inr (page_fstring (esc (resolve d ''title'' (JStr ''SCP Document'')))
       (py_strip
         (acs_header_fstring
            (esc (resolve d ''title'' (JStr ''SCP-XXXX'')))
            (projr (subtitle_div (JDict d)))
            (esc (resolve a ''item_number'' (resolve d ''title'' (JStr ''SCP-XXXX''))))
            (esc (JStr (clearance_line (resolve a ''clearance_level'' (JInt 2))
                          (resolve a ''clearance_label'' (JStr [])))))
            (memo_link (resolve a ''memo_url'' JNone)) b1 b2 b3 b4))
       sections footer)))))))"
  by (simp add: build_html_def mode acs_header_dict [OF acs] rbind_def split: sum.splits)

lemma unrelated_key:
  "render_sections (JDict (AList.update ''acs'' v d)) = render_sections (JDict d)"
  "render_footer (JDict (AList.update ''acs'' v d)) = render_footer (JDict d)"
  "subtitle_div (JDict (AList.update ''acs'' v d)) = subtitle_div (JDict d)"
  by (simp_all add: render_sections_def render_footer_def subtitle_div_dict resolve_update_other)

subsection \<open>The classic header, the footer and a section of a dict\<close>

text \<open>
  On a dict every \<^verbatim>\<open>.get\<close> succeeds, so these renderers are their f-strings filled with
  the resolved fields.
\<close>

lemma classic_header_dict:
  assumes "resolve d ''classic'' (JDict []) = JDict c"
  shows "render_classic_header (JDict d) =
     Inr (py_strip
       (classic_header_fstring
          (esc (resolve d ''title''
                  (resolve c ''item_number'' (resolve d ''title'' (JStr ''SCP-XXXX'')))))
          (projr (subtitle_div (JDict d)))
          (esc (resolve c ''item_number'' (resolve d ''title'' (JStr ''SCP-XXXX''))))
          (esc (resolve c ''object_class'' (JStr ''Euclid'')))))"
  by (simp add: render_classic_header_def subtitle_div_dict assms)

lemma footer_dict:
  assumes "resolve d ''footer'' (JDict []) = JDict f"
  shows "render_footer (JDict d) =
     Inr (py_strip
       (footer_fstring
          (esc (resolve f ''left'' (JStr [CHR 0xAB])))
          (esc (resolve f ''center'' (resolve d ''title'' (JStr ''SCP''))))
          (esc (resolve f ''right'' (JStr [CHR 0xBB])))))"
  by (simp add: render_footer_def assms)

lemma section_dict:
  "render_section (JDict s) =
     rbind (to_paragraphs (resolve s ''body'' JNone)) (\<lambda>paras.
     Inr (py_strip
       (section_fstring
          (''section'' @ (if resolve s ''kind'' JNone = JStr ''log'' then '' section--log'' else []))
          (esc (resolve s ''heading'' (JStr ''Section''))) paras)))"
  by (simp add: render_section_def)

subsection \<open>Rendering a record of the expected shape\<close>

lemma is_strE: "is_str x \<Longrightarrow> \<exists>s. x = JStr s"
  by (cases x) (simp_all add: is_str_def)

lemma is_dictE: "is_dict x \<Longrightarrow> \<exists>kvs. x = JDict kvs"
  by (cases x) (simp_all add: is_dict_def)

lemma paragraphs_strs: "list_all is_str items \<Longrightarrow> \<exists>ps. paragraphs items = Inr ps"
proof (induction items)
  case Nil
  then show ?case by simp
next
  case (Cons p items)
  then obtain ps where ps: "paragraphs items = Inr ps"
    by auto
  from Cons.prems obtain s where "p = JStr s"
    using is_strE [of p] by auto
  with ps show ?case by (simp add: strip_method_def)
qed

lemma to_paragraphs_ok: "body_ok body \<Longrightarrow> \<exists>t. to_paragraphs body = Inr t"
proof (cases body)
  case (JList items)
  assume "body_ok body"
  with JList obtain ps where "paragraphs items = Inr ps"
    using paragraphs_strs by (auto simp: body_ok_def)
  with JList show ?thesis by (simp add: to_paragraphs_def)
qed (simp_all add: to_paragraphs_def strip_method_def)

lemma render_section_ok: "section_ok sec \<Longrightarrow> \<exists>t. render_section sec = Inr t"
proof (cases sec)
  case (JDict s)
  assume "section_ok sec"
  with JDict obtain t where "to_paragraphs (resolve s ''body'' JNone) = Inr t"
    using to_paragraphs_ok by (auto simp: section_ok_def)
  with JDict show ?thesis by (simp add: render_section_def)
qed (simp_all add: section_ok_def)

lemma section_blocks_ok: "list_all section_ok secs \<Longrightarrow> \<exists>out. section_blocks secs = Inr out"
proof (induction secs)
  case Nil
  then show ?case by simp
next
  case (Cons sec secs)
  then obtain out where out: "section_blocks secs = Inr out"
    by auto
  from Cons.prems obtain t where "render_section sec = Inr t"
    using render_section_ok [of sec] by auto
  with out show ?case by simp
qed

lemma render_sections_ok:
  assumes "resolve d ''sections'' (JList []) = JList secs" and "list_all section_ok secs"
  shows "\<exists>t. render_sections (JDict d) = Inr t"
proof -
  from assms(2) obtain out where "section_blocks secs = Inr out"
    using section_blocks_ok by blast
  with assms(1) show ?thesis by (simp add: render_sections_def py_iter_def)
qed

lemma render_acs_header_ok:
  assumes "resolve d ''acs'' (JDict []) = JDict a" and "axes_ok a"
  shows "\<exists>h. render_acs_header (JDict d) = Inr h"
proof -
  from assms(2) obtain v1 v2 v3 v4 where
    "resolve a ''containment_class'' (JStr ''euclid'') = JStr v1"
    "resolve a ''secondary_class'' (JStr ''none'') = JStr v2"
    "resolve a ''disruption_class'' (JStr ''none'') = JStr v3"
    "resolve a ''risk_class'' (JStr ''notice'') = JStr v4"
    unfolding axes_ok_def using is_strE by metis
  from acs_header_badge_count [OF assms(1) this] show ?thesis by blast
qed

subsection \<open>Every page is escaped markup\<close>

lemma amp_ok_escape: "amp_ok (html_escape s)"
  by (induction s) (simp_all add: html_escape_char entities_def)

lemma esc_markup: "esc v \<in> escaped_markup"
  by (simp add: esc_def escaped_markup.escaped)

lemma empty_markup: "[] \<in> escaped_markup"
  using escaped_markup.escaped [of "[]"] by (simp add: html_escape_char)

lemma subtitle_markup: "subtitle_div x = Inr s \<Longrightarrow> s \<in> escaped_markup"
  using escaped_markup.subtitle [OF esc_markup] empty_markup
  by (auto simp: subtitle_div_def rbind_eq_Inr split: if_splits)

lemma memo_markup: "memo_link m \<in> escaped_markup"
  using escaped_markup.memo [OF esc_markup] empty_markup
  by (auto simp: memo_link_def)

lemma badge_markup:
  assumes "acs_badge l v = Inr b"
  shows "b \<in> escaped_markup"
proof -
  from assms obtain s where v: "v = JStr s"
    by (cases v) (auto simp: acs_badge_def acs_icon_url_def lower_method_def)
  show ?thesis
  proof (cases "map_of ACS_ICON_MAP (py_lower s)")
    case None
    with assms v show ?thesis by (simp add: acs_badge_str empty_markup)
  next
    case (Some f)
    with assms v have b: "b = py_strip (badge_fstring (ACS_ICON_BASE @ ''/'' @ f) (esc (JStr l)) (esc v))"
      by (simp add: acs_badge_str strip_badge)
    from Some have "(py_lower s, f) \<in> set ACS_ICON_MAP" by (rule map_of_SomeD)
    then have "f \<in> snd ` set ACS_ICON_MAP" by force
    then show ?thesis
      unfolding b by (intro escaped_markup.badge esc_markup)
  qed
qed

lemma classic_markup:
  assumes "render_classic_header x = Inr h"
  shows "h \<in> escaped_markup"
proof -
  from assms obtain t s i c where s: "subtitle_div x = Inr s"
    and h: "h = py_strip (classic_header_fstring (esc t) s (esc i) (esc c))"
    by (auto simp: render_classic_header_def rbind_eq_Inr)
  show ?thesis
    unfolding h by (intro escaped_markup.classic esc_markup subtitle_markup [OF s])
qed

lemma acs_markup:
  assumes "render_acs_header x = Inr h"
  shows "h \<in> escaped_markup"
proof -
  from assms obtain t s i c m l1 v1 b1 l2 v2 b2 l3 v3 b3 l4 v4 b4 where
    s: "subtitle_div x = Inr s"
    and b: "acs_badge l1 v1 = Inr b1" "acs_badge l2 v2 = Inr b2"
      "acs_badge l3 v3 = Inr b3" "acs_badge l4 v4 = Inr b4"
    and h: "h = py_strip (acs_header_fstring (esc t) s (esc i) (esc c) (memo_link m) b1 b2 b3 b4)"
    unfolding render_acs_header_def rbind_eq_Inr by blast
  show ?thesis
    unfolding h
    by (intro escaped_markup.acs esc_markup memo_markup subtitle_markup [OF s]
        badge_markup [OF b(1)] badge_markup [OF b(2)] badge_markup [OF b(3)] badge_markup [OF b(4)])
qed

lemma footer_markup:
  assumes "render_footer x = Inr h"
  shows "h \<in> escaped_markup"
proof -
  from assms obtain l c r where h: "h = py_strip (footer_fstring (esc l) (esc c) (esc r))"
    by (auto simp: render_footer_def rbind_eq_Inr)
  show ?thesis
    unfolding h by (intro escaped_markup.footer esc_markup)
qed

lemma join_markup:
  "\<forall>x\<in>set xs. x \<in> escaped_markup \<Longrightarrow> join ''\<newline>'' xs \<in> escaped_markup"
proof (induction xs rule: induct_list012)
  case 1
  then show ?case by (simp add: empty_markup)
next
  case (2 x)
  then show ?case by simp
next
  case (3 x y ys)
  then show ?case
    using escaped_markup.lines [of x "join ''\<newline>'' (y # ys)"] by simp
qed

lemma paragraphs_markup:
  "paragraphs items = Inr ps \<Longrightarrow> \<forall>p\<in>set ps. p \<in> escaped_markup"
proof (induction items arbitrary: ps)
  case Nil
  then show ?case by simp
next
  case (Cons p items)
  then show ?case
    using escaped_markup.para [OF esc_markup]
    by (auto simp: rbind_eq_Inr split: if_splits)
qed

lemma to_paragraphs_markup:
  assumes "to_paragraphs body = Inr t"
  shows "t \<in> escaped_markup"
proof -
  from assms have "t = [] \<or> (\<exists>items ps. paragraphs items = Inr ps \<and> t = join ''\<newline>'' ps)"
    by (cases body) (auto simp: to_paragraphs_def rbind_eq_Inr simp del: paragraphs.simps)
  then show ?thesis
    using empty_markup join_markup paragraphs_markup by blast
qed

lemma section_markup:
  assumes "render_section sec = Inr t"
  shows "t \<in> escaped_markup"
proof -
  from assms obtain cls h body p where c: "cls = ''section'' \<or> cls = ''section section--log''"
    and p: "to_paragraphs body = Inr p"
    and t: "t = py_strip (section_fstring cls (esc h) p)"
    by (auto simp: render_section_def rbind_eq_Inr Let_def split: if_splits)
  show ?thesis
    unfolding t by (intro escaped_markup.sect c esc_markup to_paragraphs_markup [OF p])
qed

lemma section_blocks_markup:
  "section_blocks secs = Inr out \<Longrightarrow> \<forall>b\<in>set out. b \<in> escaped_markup"
proof (induction secs arbitrary: out)
  case Nil
  then show ?case by simp
next
  case (Cons sec secs)
  then show ?case
    by (auto simp: rbind_eq_Inr intro: section_markup)
qed

lemma sections_markup:
  assumes "render_sections x = Inr t"
  shows "t \<in> escaped_markup"
proof -
  from assms obtain secs out where "section_blocks secs = Inr out" "t = join ''\<newline>'' out"
    by (auto simp: render_sections_def rbind_eq_Inr)
  then show ?thesis
    using join_markup section_blocks_markup by blast
qed

lemma build_html_markup:
  assumes "build_html x = Inr out"
  shows "out \<in> escaped_markup"
proof -
  from assms obtain t h s f where
    h: "render_acs_header x = Inr h \<or> render_classic_header x = Inr h"
    and s: "render_sections x = Inr s" and f: "render_footer x = Inr f"
    and o: "out = page_fstring (esc t) h s f"
    by (auto simp: build_html_def rbind_eq_Inr split: if_splits)
  from h have "h \<in> escaped_markup"
    using acs_markup classic_markup by blast
  then show ?thesis
    unfolding o by (intro escaped_markup.page esc_markup sections_markup [OF s] footer_markup [OF f])
qed

subsection \<open>Escaped markup is balanced\<close>

lemma strip_classic_header:
  "py_strip (classic_header_fstring t s i c) = butlast (tl (classic_header_fstring t s i c))"
  by (simp add: py_strip_def classic_header_fstring_def is_space_def butlast_append)

lemma strip_section:
  "py_strip (section_fstring cls h p) = butlast (tl (section_fstring cls h p))"
  by (simp add: py_strip_def section_fstring_def is_space_def butlast_append)

lemma strip_footer:
  "py_strip (footer_fstring l c r) = butlast (tl (footer_fstring l c r))"
  by (simp add: py_strip_def footer_fstring_def is_space_def butlast_append)

lemma count_escape:
  "count_list (html_escape s) CHR ''<'' = 0" "count_list (html_escape s) CHR ''>'' = 0"
  "count_list (html_escape s) (CHR 0x22) = 0" "count_list (html_escape s) (CHR 0x27) = 0"
  by (simp_all add: count_list_0_iff html_escape_set)

lemma count_icon_file:
  assumes "f \<in> snd ` set ACS_ICON_MAP"
  shows "count_list f CHR ''<'' = 0" "count_list f CHR ''>'' = 0"
    "count_list f (CHR 0x22) = 0" "count_list f (CHR 0x27) = 0"
  using assms by (auto simp: ACS_ICON_MAP_def)

lemma count_base:
  "count_list ACS_ICON_BASE CHR ''<'' = 0" "count_list ACS_ICON_BASE CHR ''>'' = 0"
  "count_list ACS_ICON_BASE (CHR 0x22) = 0" "count_list ACS_ICON_BASE (CHR 0x27) = 0"
  by (simp_all add: ACS_ICON_BASE_def)

lemma count_style:
  "count_list page_style CHR ''<'' = 0" "count_list page_style CHR ''>'' = 0"
  "count_list page_style (CHR 0x22) = 0" "count_list page_style (CHR 0x27) = 0"
  by (simp_all add: page_style_def)

lemma markup_balanced: "m \<in> escaped_markup \<Longrightarrow> balanced m"
proof (induction rule: escaped_markup.induct)
  case (escaped s)
  then show ?case by (simp add: balanced_def count_escape)
next
  case (lines x y)
  then show ?case by (simp add: balanced_def)
next
  case (subtitle e)
  then show ?case by (simp add: balanced_def)
next
  case (memo e)
  then show ?case by (simp add: balanced_def)
next
  case (para e)
  then show ?case by (simp add: balanced_def)
next
  case (classic t s i c)
  then show ?case
    unfolding strip_classic_header
    by (simp add: balanced_def classic_header_fstring_def butlast_append)
next
  case (badge f l v)
  then show ?case
    unfolding strip_badge
    by (simp add: balanced_def badge_fstring_def butlast_append count_icon_file count_base)
next
  case (acs t s i c m b1 b2 b3 b4)
  then show ?case
    unfolding strip_acs_header
    by (simp add: balanced_def acs_header_fstring_def butlast_append)
next
  case (sect cls h p)
  then show ?case
    unfolding strip_section
    by (auto simp: balanced_def section_fstring_def butlast_append)
next
  case (footer l c r)
  then show ?case
    unfolding strip_footer
    by (simp add: balanced_def footer_fstring_def butlast_append)
next
  case (page t h s f)
  then show ?case
    by (simp add: balanced_def page_fstring_def count_style)
qed

section \<open>The claims\<close>

text \<open>
  C3. An axis value whose lower-cased form is not a key of the icon table gives the empty
  string as its badge, whatever the label; and an ACS header whose four axis values
  are strings of which exactly three have an icon (one unknown value, three that the
  table resolves) is rendered with exactly three badges.
\<close>

theorem unknown_axis_badge_omitted:
  "(\<not> has_icon v \<longrightarrow> acs_badge l (JStr v) = Inr []) \<and>
   (resolve d ''acs'' (JDict []) = JDict a \<and>
    resolve a ''containment_class'' (JStr ''euclid'') = JStr v1 \<and>
    resolve a ''secondary_class'' (JStr ''none'') = JStr v2 \<and>
    resolve a ''disruption_class'' (JStr ''none'') = JStr v3 \<and>
    resolve a ''risk_class'' (JStr ''notice'') = JStr v4 \<and>
    length (filter has_icon [v1, v2, v3, v4]) = 3 \<longrightarrow>
    (\<exists>h. render_acs_header (JDict d) = Inr h \<and> occurrences badge_open h = 3))"
proof (intro conjI impI)
  assume "\<not> has_icon v"
  then show "acs_badge l (JStr v) = Inr []"
    by (simp add: acs_badge_str has_icon_iff)
next
  assume h: "resolve d ''acs'' (JDict []) = JDict a \<and>
    resolve a ''containment_class'' (JStr ''euclid'') = JStr v1 \<and>
    resolve a ''secondary_class'' (JStr ''none'') = JStr v2 \<and>
    resolve a ''disruption_class'' (JStr ''none'') = JStr v3 \<and>
    resolve a ''risk_class'' (JStr ''notice'') = JStr v4 \<and>
    length (filter has_icon [v1, v2, v3, v4]) = 3"
  then obtain h' where "render_acs_header (JDict d) = Inr h'"
    and "occurrences badge_open h' = length (filter has_icon [v1, v2, v3, v4])"
    using acs_header_badge_count [of d a v1 v2 v3 v4] by blast
  with h show "\<exists>h. render_acs_header (JDict d) = Inr h \<and> occurrences badge_open h = 3"
    by simp
qed

theorem unknown_axis_badge_omitted_witness:
  "\<not> has_icon ''unknown-value'' \<and>
   acs_badge ''Containment'' (JStr ''unknown-value'') = Inr [] \<and>
   (\<exists>h. render_acs_header
           (JDict [(''header_mode'', JStr ''acs''),
                   (''acs'', JDict [(''containment_class'', JStr ''unknown-value''),
                                    (''secondary_class'', JStr ''Thaumiel''),
                                    (''disruption_class'', JStr ''dark''),
                                    (''risk_class'', JStr ''DANGER'')])]) = Inr h \<and>
        occurrences badge_open h = 3)"
proof -
  have u: "\<not> has_icon ''unknown-value''" by code_simp
  have k: "has_icon ''Thaumiel''" "has_icon ''dark''" "has_icon ''DANGER''" by code_simp+
  show ?thesis
    using u k
      unknown_axis_badge_omitted
        [of "''unknown-value''" "''Containment''"
            "[(''header_mode'', JStr ''acs''),
              (''acs'', JDict [(''containment_class'', JStr ''unknown-value''),
                               (''secondary_class'', JStr ''Thaumiel''),
                               (''disruption_class'', JStr ''dark''),
                               (''risk_class'', JStr ''DANGER'')])]"
            "[(''containment_class'', JStr ''unknown-value''),
              (''secondary_class'', JStr ''Thaumiel''),
              (''disruption_class'', JStr ''dark''),
              (''risk_class'', JStr ''DANGER'')]"
            "''unknown-value''" "''Thaumiel''" "''dark''" "''DANGER''"]
    by (simp add: resolve_def)
qed

text \<open>
  C5. The claim holds of a body that is None, a string, a list of strings or anything
  that is not a list. On a list with an entry that is not a string the code breaks it:
  the filter of the generator tests \<^verbatim>\<open>str(p).strip()\<close>, which every such entry passes,
  and the paragraph is then built from \<^verbatim>\<open>p.strip()\<close>, a method the entry does not have.
  For the body \<^verbatim>\<open>["Line one.", 5]\<close> the claim gives the two paragraphs of
  \<^verbatim>\<open>Line one.\<close> and \<^verbatim>\<open>5\<close>; the code raises AttributeError.
\<close>

theorem to_paragraphs_non_string_entry_raises:
  "to_paragraphs (JList [JStr ''Line one.'', JInt 5]) = Inl AttributeError"
  by code_simp

text \<open>
  C10. When the acs sub-record has none of the four axis keys, the ACS header is the
  header f-string with its four badge fields filled by the four full badges of the
  defaults: the \<^verbatim>\<open>Containment\<close> badge of \<^verbatim>\<open>euclid\<close> with the euclid icon, and the
  \<^verbatim>\<open>Secondary\<close>, \<^verbatim>\<open>Disruption\<close> and \<^verbatim>\<open>Risk\<close> badges of \<^verbatim>\<open>none\<close>, \<^verbatim>\<open>none\<close> and
  \<^verbatim>\<open>notice\<close>, each with the icon \<^verbatim>\<open>notice-icon.svg\<close>. None is omitted: the header has
  four badge opening tags, and \<^verbatim>\<open>acs_badge\<close> gives the full badge f-string, with icon
  URL, label and value, for each default. The keyword \<^verbatim>\<open>none\<close> resolves to the file
  \<^verbatim>\<open>notice-icon.svg\<close>, the icon of the keyword \<^verbatim>\<open>notice\<close>.
\<close>

theorem default_axes_all_badged:
  "(resolve d ''acs'' (JDict []) = JDict a \<and>
    map_of a ''containment_class'' = None \<and> map_of a ''secondary_class'' = None \<and>
    map_of a ''disruption_class'' = None \<and> map_of a ''risk_class'' = None \<longrightarrow>
    render_acs_header (JDict d) =
      Inr (py_strip
        (acs_header_fstring
           (esc (resolve d ''title'' (JStr ''SCP-XXXX'')))
           (projr (subtitle_div (JDict d)))
           (esc (resolve a ''item_number'' (resolve d ''title'' (JStr ''SCP-XXXX''))))
           (esc (JStr (clearance_line (resolve a ''clearance_level'' (JInt 2))
                         (resolve a ''clearance_label'' (JStr [])))))
           (memo_link (resolve a ''memo_url'' JNone))
           (py_strip (badge_fstring (ACS_ICON_BASE @ ''/euclid-icon.svg'') ''Containment'' ''euclid''))
           (py_strip (badge_fstring (ACS_ICON_BASE @ ''/notice-icon.svg'') ''Secondary'' ''none''))
           (py_strip (badge_fstring (ACS_ICON_BASE @ ''/notice-icon.svg'') ''Disruption'' ''none''))
           (py_strip (badge_fstring (ACS_ICON_BASE @ ''/notice-icon.svg'') ''Risk'' ''notice'')))) \<and>
    (\<exists>h. render_acs_header (JDict d) = Inr h \<and> occurrences badge_open h = 4)) \<and>
   acs_badge ''Containment'' (JStr ''euclid'') =
     Inr (py_strip (badge_fstring (ACS_ICON_BASE @ ''/euclid-icon.svg'') ''Containment'' ''euclid'')) \<and>
   acs_badge ''Secondary'' (JStr ''none'') =
     Inr (py_strip (badge_fstring (ACS_ICON_BASE @ ''/notice-icon.svg'') ''Secondary'' ''none'')) \<and>
   acs_badge ''Disruption'' (JStr ''none'') =
     Inr (py_strip (badge_fstring (ACS_ICON_BASE @ ''/notice-icon.svg'') ''Disruption'' ''none'')) \<and>
   acs_badge ''Risk'' (JStr ''notice'') =
     Inr (py_strip (badge_fstring (ACS_ICON_BASE @ ''/notice-icon.svg'') ''Risk'' ''notice'')) \<and>
   has_icon ''euclid'' \<and> has_icon ''none'' \<and> has_icon ''notice'' \<and>
   acs_icon_url (JStr ''none'') = Inr (Some (ACS_ICON_BASE @ ''/notice-icon.svg'')) \<and>
   acs_icon_url (JStr ''notice'') = Inr (Some (ACS_ICON_BASE @ ''/notice-icon.svg''))"
proof -
  have i: "has_icon ''euclid''" "has_icon ''none''" "has_icon ''notice''"
    by code_simp+
  have u: "acs_icon_url (JStr ''none'') = Inr (Some (ACS_ICON_BASE @ ''/notice-icon.svg''))"
    "acs_icon_url (JStr ''notice'') = Inr (Some (ACS_ICON_BASE @ ''/notice-icon.svg''))"
    by code_simp+
  have "render_acs_header (JDict d) =
      Inr (py_strip
        (acs_header_fstring
           (esc (resolve d ''title'' (JStr ''SCP-XXXX'')))
           (projr (subtitle_div (JDict d)))
           (esc (resolve a ''item_number'' (resolve d ''title'' (JStr ''SCP-XXXX''))))
           (esc (JStr (clearance_line (resolve a ''clearance_level'' (JInt 2))
                         (resolve a ''clearance_label'' (JStr [])))))
           (memo_link (resolve a ''memo_url'' JNone))
           (py_strip (badge_fstring (ACS_ICON_BASE @ ''/euclid-icon.svg'') ''Containment'' ''euclid''))
           (py_strip (badge_fstring (ACS_ICON_BASE @ ''/notice-icon.svg'') ''Secondary'' ''none''))
           (py_strip (badge_fstring (ACS_ICON_BASE @ ''/notice-icon.svg'') ''Disruption'' ''none''))
           (py_strip (badge_fstring (ACS_ICON_BASE @ ''/notice-icon.svg'') ''Risk'' ''notice'')))) \<and>
    (\<exists>h. render_acs_header (JDict d) = Inr h \<and> occurrences badge_open h = 4)"
    if acs: "resolve d ''acs'' (JDict []) = JDict a"
      and n: "map_of a ''containment_class'' = None" "map_of a ''secondary_class'' = None"
        "map_of a ''disruption_class'' = None" "map_of a ''risk_class'' = None"
  proof -
    have r: "resolve a ''containment_class'' (JStr ''euclid'') = JStr ''euclid''"
      "resolve a ''secondary_class'' (JStr ''none'') = JStr ''none''"
      "resolve a ''disruption_class'' (JStr ''none'') = JStr ''none''"
      "resolve a ''risk_class'' (JStr ''notice'') = JStr ''notice''"
      using n by (simp_all add: resolve_def)
    have full: "render_acs_header (JDict d) =
      Inr (py_strip
        (acs_header_fstring
           (esc (resolve d ''title'' (JStr ''SCP-XXXX'')))
           (projr (subtitle_div (JDict d)))
           (esc (resolve a ''item_number'' (resolve d ''title'' (JStr ''SCP-XXXX''))))
           (esc (JStr (clearance_line (resolve a ''clearance_level'' (JInt 2))
                         (resolve a ''clearance_label'' (JStr [])))))
           (memo_link (resolve a ''memo_url'' JNone))
           (py_strip (badge_fstring (ACS_ICON_BASE @ ''/euclid-icon.svg'') ''Containment'' ''euclid''))
           (py_strip (badge_fstring (ACS_ICON_BASE @ ''/notice-icon.svg'') ''Secondary'' ''none''))
           (py_strip (badge_fstring (ACS_ICON_BASE @ ''/notice-icon.svg'') ''Disruption'' ''none''))
           (py_strip (badge_fstring (ACS_ICON_BASE @ ''/notice-icon.svg'') ''Risk'' ''notice''))))"
      unfolding acs_header_dict [OF acs] r default_badges rbind_Inr ..
    have four: "length (filter has_icon [''euclid'', ''none'', ''none'', ''notice'']) = 4"
      using i by simp
    have cnt: "\<exists>h. render_acs_header (JDict d) = Inr h \<and> occurrences badge_open h = 4"
      using acs_header_badge_count [OF acs r] unfolding four .
    from full cnt show ?thesis ..
  qed
  with i u default_badges show ?thesis by blast
qed

theorem default_axes_all_badged_witness:
  "render_acs_header (JDict [(''header_mode'', JStr ''acs'')]) =
     Inr (py_strip
        (acs_header_fstring ''SCP-XXXX'' [] ''SCP-XXXX'' ''Level 2'' []
           (py_strip (badge_fstring (ACS_ICON_BASE @ ''/euclid-icon.svg'') ''Containment'' ''euclid''))
           (py_strip (badge_fstring (ACS_ICON_BASE @ ''/notice-icon.svg'') ''Secondary'' ''none''))
           (py_strip (badge_fstring (ACS_ICON_BASE @ ''/notice-icon.svg'') ''Disruption'' ''none''))
           (py_strip (badge_fstring (ACS_ICON_BASE @ ''/notice-icon.svg'') ''Risk'' ''notice'')))) \<and>
   (\<exists>h. render_acs_header (JDict [(''header_mode'', JStr ''acs'')]) = Inr h \<and>
        occurrences badge_open h = 4)"
proof -
  have e: "esc (JStr ''SCP-XXXX'') = ''SCP-XXXX''"
    "esc (JStr (clearance_line (JInt 2) (JStr []))) = ''Level 2''"
    "projr (subtitle_div (JDict [(''header_mode'', JStr ''acs'')])) = []"
    "memo_link JNone = []"
    by code_simp+
  have r: "resolve [(''header_mode'', JStr ''acs'')] ''title'' (JStr ''SCP-XXXX'') = JStr ''SCP-XXXX''"
    "resolve [] k dflt = dflt" for k dflt
    by (simp_all add: resolve_def)
  have h: "resolve [(''header_mode'', JStr ''acs'')] ''acs'' (JDict []) = JDict [] \<and>
    map_of [] ''containment_class'' = (None :: json option) \<and>
    map_of [] ''secondary_class'' = (None :: json option) \<and>
    map_of [] ''disruption_class'' = (None :: json option) \<and>
    map_of [] ''risk_class'' = (None :: json option)"
    by (simp add: resolve_def)
  from default_axes_all_badged [of "[(''header_mode'', JStr ''acs'')]" "[]"] h
  have "render_acs_header (JDict [(''header_mode'', JStr ''acs'')]) =
      Inr (py_strip
        (acs_header_fstring
           (esc (resolve [(''header_mode'', JStr ''acs'')] ''title'' (JStr ''SCP-XXXX'')))
           (projr (subtitle_div (JDict [(''header_mode'', JStr ''acs'')])))
           (esc (resolve [] ''item_number''
                   (resolve [(''header_mode'', JStr ''acs'')] ''title'' (JStr ''SCP-XXXX''))))
           (esc (JStr (clearance_line (resolve [] ''clearance_level'' (JInt 2))
                         (resolve [] ''clearance_label'' (JStr [])))))
           (memo_link (resolve [] ''memo_url'' JNone))
           (py_strip (badge_fstring (ACS_ICON_BASE @ ''/euclid-icon.svg'') ''Containment'' ''euclid''))
           (py_strip (badge_fstring (ACS_ICON_BASE @ ''/notice-icon.svg'') ''Secondary'' ''none''))
           (py_strip (badge_fstring (ACS_ICON_BASE @ ''/notice-icon.svg'') ''Disruption'' ''none''))
           (py_strip (badge_fstring (ACS_ICON_BASE @ ''/notice-icon.svg'') ''Risk'' ''notice'')))) \<and>
    (\<exists>h. render_acs_header (JDict [(''header_mode'', JStr ''acs'')]) = Inr h \<and>
         occurrences badge_open h = 4)"
    by blast
  then show ?thesis
    unfolding r e .
qed

text \<open>
  C7, as stated, fails: the badge repeats the axis value as it was written, in the
  \<^verbatim>\<open>alt\<close> text and in the \<^verbatim>\<open>badge__value\<close> division, so \<^verbatim>\<open>Safe\<close> and \<^verbatim>\<open>SAFE\<close> give
  different fragments.
\<close>

theorem badge_casing_counterexample:
  "has_icon ''Safe'' \<and> py_lower ''Safe'' = py_lower ''SAFE'' \<and>
   acs_badge ''Containment'' (JStr ''Safe'') \<noteq> acs_badge ''Containment'' (JStr ''SAFE'')"
  by code_simp

text \<open>
  C7, amended. Two axis values with the same lower-cased form, a key of the icon table,
  resolve to the same icon URL, and each badge is the one f-string filled with that URL,
  the escaped label and the escaped value as it was written: the fragments differ only
  where the value itself is shown.
\<close>

theorem badge_casing_same_icon:
  assumes "has_icon v" and "py_lower v = py_lower w"
  shows "\<exists>url. acs_icon_url (JStr v) = Inr (Some url) \<and> acs_icon_url (JStr w) = Inr (Some url) \<and>
      acs_badge l (JStr v) = Inr (py_strip (badge_fstring url (esc (JStr l)) (esc (JStr v)))) \<and>
      acs_badge l (JStr w) = Inr (py_strip (badge_fstring url (esc (JStr l)) (esc (JStr w))))"
proof -
  from assms(1) obtain f where f: "map_of ACS_ICON_MAP (py_lower v) = Some f"
    by (auto simp: has_icon_iff)
  then have ne: "f \<noteq> []" using icon_file by blast
  from f assms(2) have f': "map_of ACS_ICON_MAP (py_lower w) = Some f" by simp
  show ?thesis
    using f f' ne by (simp add: acs_badge_def acs_icon_url_def lower_method_def)
qed

theorem badge_casing_same_icon_witness:
  "has_icon ''Safe'' \<and> py_lower ''Safe'' = py_lower ''SAFE'' \<and>
   (\<exists>url. acs_icon_url (JStr ''Safe'') = Inr (Some url) \<and>
      acs_icon_url (JStr ''SAFE'') = Inr (Some url) \<and>
      acs_badge ''Containment'' (JStr ''Safe'') =
        Inr (py_strip (badge_fstring url (esc (JStr ''Containment'')) (esc (JStr ''Safe'')))) \<and>
      acs_badge ''Containment'' (JStr ''SAFE'') =
        Inr (py_strip (badge_fstring url (esc (JStr ''Containment'')) (esc (JStr ''SAFE'')))))"
proof -
  have h: "has_icon ''Safe''" "py_lower ''Safe'' = py_lower ''SAFE''" by code_simp+
  from badge_casing_same_icon [OF h, of "''Containment''"] h show ?thesis by blast
qed



text \<open>
  C8. In an ACS header the clearance field is the escaped text \<^verbatim>\<open>Level {level}\<close> when
  the label key is absent or its value is empty (or false in any other way), and
  \<^verbatim>\<open>Level {level}: {label}\<close> when the label is a true value, such as a non-empty
  string. For the record of the example the page is the page f-string filled with the
  header whose clearance field reads \<^verbatim>\<open>Level 3: Site Director\<close>, and with a
  \<^verbatim>\<open>Description\<close> section holding exactly the two paragraphs \<^verbatim>\<open>Line one.\<close> and
  \<^verbatim>\<open>Line two.\<close>.
\<close>

theorem clearance_line_by_label:
  \<open>(resolve d ''acs'' (JDict []) = JDict a \<and> render_acs_header (JDict d) = Inr h \<longrightarrow>
    (\<exists>line title subtitle item_number memo b1 b2 b3 b4.
       h = py_strip (acs_header_fstring title subtitle item_number (esc (JStr line)) memo b1 b2 b3 b4) \<and>
       (map_of a ''clearance_label'' = None \<or>
        \<not> truthy (resolve a ''clearance_label'' (JStr [])) \<longrightarrow>
          line = ''Level '' @ py_str (resolve a ''clearance_level'' (JInt 2))) \<and>
       (truthy (resolve a ''clearance_label'' (JStr [])) \<longrightarrow>
          line = ''Level '' @ py_str (resolve a ''clearance_level'' (JInt 2)) @ '': '' @
                 py_str (resolve a ''clearance_label'' (JStr []))))) \<and>
   build_html example_record =
     Inr (page_fstring ''SCP-999''
            (py_strip (acs_header_fstring ''SCP-999'' [] ''SCP-999'' ''Level 3: Site Director'' []
               (projr (acs_badge ''Containment'' (JStr ''euclid'')))
               (projr (acs_badge ''Secondary'' (JStr ''none'')))
               (projr (acs_badge ''Disruption'' (JStr ''none'')))
               (projr (acs_badge ''Risk'' (JStr ''notice'')))))
            (''<section class="section">\<newline>'' @
             ''  <h2>Description</h2>\<newline>'' @
             ''  <p>Line one.</p>\<newline>'' @
             ''<p>Line two.</p>\<newline>'' @
             ''</section>'')
            (projr (render_footer example_record))) \<and>
   occurrences ''<p>''
     (''<section class="section">\<newline>'' @
      ''  <h2>Description</h2>\<newline>'' @
      ''  <p>Line one.</p>\<newline>'' @
      ''<p>Line two.</p>\<newline>'' @
      ''</section>'') = 2\<close>
proof -
  have ex: \<open>build_html example_record =
     Inr (page_fstring ''SCP-999''
            (py_strip (acs_header_fstring ''SCP-999'' [] ''SCP-999'' ''Level 3: Site Director'' []
               (projr (acs_badge ''Containment'' (JStr ''euclid'')))
               (projr (acs_badge ''Secondary'' (JStr ''none'')))
               (projr (acs_badge ''Disruption'' (JStr ''none'')))
               (projr (acs_badge ''Risk'' (JStr ''notice'')))))
            (''<section class="section">\<newline>'' @
             ''  <h2>Description</h2>\<newline>'' @
             ''  <p>Line one.</p>\<newline>'' @
             ''<p>Line two.</p>\<newline>'' @
             ''</section>'')
            (projr (render_footer example_record)))\<close>
    by code_simp
  have two: \<open>occurrences ''<p>''
     (''<section class="section">\<newline>'' @
      ''  <h2>Description</h2>\<newline>'' @
      ''  <p>Line one.</p>\<newline>'' @
      ''<p>Line two.</p>\<newline>'' @
      ''</section>'') = 2\<close>
    by code_simp
  have gen: "\<exists>line title subtitle item_number memo b1 b2 b3 b4.
       h = py_strip (acs_header_fstring title subtitle item_number (esc (JStr line)) memo b1 b2 b3 b4) \<and>
       (map_of a ''clearance_label'' = None \<or>
        \<not> truthy (resolve a ''clearance_label'' (JStr [])) \<longrightarrow>
          line = ''Level '' @ py_str (resolve a ''clearance_level'' (JInt 2))) \<and>
       (truthy (resolve a ''clearance_label'' (JStr [])) \<longrightarrow>
          line = ''Level '' @ py_str (resolve a ''clearance_level'' (JInt 2)) @ '': '' @
                 py_str (resolve a ''clearance_label'' (JStr [])))"
    if acs: "resolve d ''acs'' (JDict []) = JDict a" and h: "render_acs_header (JDict d) = Inr h"
  proof -
    let ?line = "clearance_line (resolve a ''clearance_level'' (JInt 2))
                   (resolve a ''clearance_label'' (JStr []))"
    from h obtain title subtitle item_number memo b1 b2 b3 b4 where
      hh: "h = py_strip (acs_header_fstring title subtitle item_number (esc (JStr ?line)) memo b1 b2 b3 b4)"
      unfolding acs_header_dict [OF acs] by (auto simp: rbind_eq_Inr)
    have l0: "map_of a ''clearance_label'' = None \<Longrightarrow>
        \<not> truthy (resolve a ''clearance_label'' (JStr []))"
      by (simp add: resolve_def)
    have l1: "\<not> truthy (resolve a ''clearance_label'' (JStr [])) \<Longrightarrow>
        ?line = ''Level '' @ py_str (resolve a ''clearance_level'' (JInt 2))"
      by (simp add: clearance_line_def)
    have l2: "truthy (resolve a ''clearance_label'' (JStr [])) \<Longrightarrow>
        ?line = ''Level '' @ py_str (resolve a ''clearance_level'' (JInt 2)) @ '': '' @
                 py_str (resolve a ''clearance_label'' (JStr []))"
      by (simp add: clearance_line_def)
    show ?thesis
      by (rule exI [of _ ?line], rule exI [of _ title], rule exI [of _ subtitle],
          rule exI [of _ item_number], rule exI [of _ memo], rule exI [of _ b1],
          rule exI [of _ b2], rule exI [of _ b3], rule exI [of _ b4])
        (use hh l0 l1 l2 in blast)
  qed
  from ex two gen show ?thesis by blast
qed

theorem clearance_line_by_label_witness:
  \<open>\<exists>h title subtitle item_number memo b1 b2 b3 b4.
     render_acs_header example_record = Inr h \<and>
     h = py_strip (acs_header_fstring title subtitle item_number
           (esc (JStr ''Level 3: Site Director'')) memo b1 b2 b3 b4)\<close>
proof -
  have "\<not> isl (render_acs_header example_record)" by code_simp
  then obtain h where h: "render_acs_header example_record = Inr h"
    by (cases "render_acs_header example_record") auto
  have s: "py_str (JInt 3) = ''3''" by code_simp
  from clearance_line_by_label
    [of "[(''title'', JStr ''SCP-999''),
            (''header_mode'', JStr ''acs''),
            (''acs'', JDict [(''clearance_level'', JInt 3),
                             (''clearance_label'', JStr ''Site Director'')]),
            (''sections'',
               JList [JDict [(''heading'', JStr ''Description''),
                             (''body'', JList [JStr ''Line one.'', JStr '''', JStr '' '',
                                               JStr ''Line two.''])]])]"
        "[(''clearance_level'', JInt 3), (''clearance_label'', JStr ''Site Director'')]" h]
    h s
  show ?thesis
    by (simp add: example_record_def resolve_def py_str_def)
qed

text \<open>
  C9. A page with an ACS header is \<^verbatim>\<open>pre <!-- memo --> post\<close>, where \<^verbatim>\<open>memo\<close> is the
  memo link of the value under \<^verbatim>\<open>memo_url\<close>. What a reader sees of the page is
  \<^verbatim>\<open>pre\<close> followed by what is visible of \<^verbatim>\<open>post\<close>: the link is inside the comment and
  cannot close it. Putting any other value under \<^verbatim>\<open>memo_url\<close> changes nothing but the
  link inside the comment, so nothing of the memo is outside it; and when the key is
  absent the comment is empty.
\<close>

theorem memo_only_inside_comment:
  assumes mode: "resolve d ''header_mode'' JNone = JStr ''acs''"
    and acs: "resolve d ''acs'' (JDict []) = JDict a"
    and out: "build_html (JDict d) = Inr out"
  shows \<open>\<exists>pre post.
      out = pre @ ''<!-- '' @ memo_link (resolve a ''memo_url'' JNone) @ '' -->'' @ post \<and>
      visible False out = pre @ visible False post \<and>
      (map_of a ''memo_url'' = None \<longrightarrow> out = pre @ ''<!--  -->'' @ post) \<and>
      (\<forall>m. build_html (JDict (AList.update ''acs'' (JDict (AList.update ''memo_url'' m a)) d)) =
             Inr (pre @ ''<!-- '' @ memo_link m @ '' -->'' @ post) \<and>
           visible False (pre @ ''<!-- '' @ memo_link m @ '' -->'' @ post) =
             pre @ visible False post)\<close>
proof -
  let ?tt = "esc (resolve d ''title'' (JStr ''SCP Document''))"
  let ?t = "esc (resolve d ''title'' (JStr ''SCP-XXXX''))"
  let ?s = "projr (subtitle_div (JDict d))"
  let ?i = "esc (resolve a ''item_number'' (resolve d ''title'' (JStr ''SCP-XXXX'')))"
  let ?c = "esc (JStr (clearance_line (resolve a ''clearance_level'' (JInt 2))
                          (resolve a ''clearance_label'' (JStr []))))"
  let ?d' = "\<lambda>m. AList.update ''acs'' (JDict (AList.update ''memo_url'' m a)) d"
  from out obtain b1 b2 b3 b4 secs foot where
    b: "acs_badge ''Containment'' (resolve a ''containment_class'' (JStr ''euclid'')) = Inr b1"
      "acs_badge ''Secondary'' (resolve a ''secondary_class'' (JStr ''none'')) = Inr b2"
      "acs_badge ''Disruption'' (resolve a ''disruption_class'' (JStr ''none'')) = Inr b3"
      "acs_badge ''Risk'' (resolve a ''risk_class'' (JStr ''notice'')) = Inr b4"
    and sf: "render_sections (JDict d) = Inr secs" "render_footer (JDict d) = Inr foot"
    and o: "out = page_fstring ?tt
        (py_strip (acs_header_fstring ?t ?s ?i ?c (memo_link (resolve a ''memo_url'' JNone)) b1 b2 b3 b4))
        secs foot"
    unfolding build_html_acs_dict [OF mode acs] by (auto simp: rbind_eq_Inr)
  have o': "build_html (JDict (?d' m)) = Inr (page_fstring ?tt
        (py_strip (acs_header_fstring ?t ?s ?i ?c (memo_link m) b1 b2 b3 b4)) secs foot)" for m
  proof -
    have mode': "resolve (?d' m) ''header_mode'' JNone = JStr ''acs''"
      using mode by (simp add: resolve_update_other)
    have acs': "resolve (?d' m) ''acs'' (JDict []) = JDict (AList.update ''memo_url'' m a)"
      by (simp add: resolve_update_same)
    show ?thesis
      unfolding build_html_acs_dict [OF mode' acs']
      by (simp add: resolve_update_other resolve_update_same unrelated_key b sf)
  qed
  from page_memo_comment [of ?tt ?t ?i ?c ?s b1 b2 b3 b4 secs foot] subtitle_shape [of d]
  obtain pre post where pp: \<open>\<And>m.
      page_fstring ?tt (py_strip (acs_header_fstring ?t ?s ?i ?c (memo_link m) b1 b2 b3 b4)) secs foot =
        pre @ ''<!-- '' @ memo_link m @ '' -->'' @ post \<and>
      visible False (pre @ ''<!-- '' @ memo_link m @ '' -->'' @ post) = pre @ visible False post\<close>
    using esc_set(1) by blast
  have 1: \<open>out = pre @ ''<!-- '' @ memo_link (resolve a ''memo_url'' JNone) @ '' -->'' @ post\<close>
    unfolding o using pp by blast
  have 2: "visible False out = pre @ visible False post"
    unfolding 1 using pp by blast
  have 3: \<open>out = pre @ ''<!--  -->'' @ post\<close> if "map_of a ''memo_url'' = None"
    unfolding 1 using that by (simp add: resolve_def memo_link_def)
  have 4: \<open>build_html (JDict (?d' m)) = Inr (pre @ ''<!-- '' @ memo_link m @ '' -->'' @ post) \<and>
           visible False (pre @ ''<!-- '' @ memo_link m @ '' -->'' @ post) =
             pre @ visible False post\<close> for m
    unfolding o' using pp by blast
  show ?thesis
    by (rule exI [of _ pre], rule exI [of _ post]) (use 1 2 3 4 in blast)
qed

theorem memo_only_inside_comment_witness:
  \<open>\<exists>out pre post.
     build_html (JDict [(''header_mode'', JStr ''acs''),
                        (''acs'', JDict [(''memo_url'', JStr ''https://example.org/a--><b>'')])]) = Inr out \<and>
     out = pre @ ''<!-- '' @ memo_link (JStr ''https://example.org/a--><b>'') @ '' -->'' @ post \<and>
     visible False out = pre @ visible False post\<close>
proof -
  let ?a = "[(''memo_url'', JStr ''https://example.org/a--><b>'')]"
  let ?d = "[(''header_mode'', JStr ''acs''), (''acs'', JDict ?a)]"
  have "\<not> isl (build_html (JDict ?d))" by code_simp
  then obtain out where out: "build_html (JDict ?d) = Inr out"
    by (cases "build_html (JDict ?d)") auto
  have h: "resolve ?d ''header_mode'' JNone = JStr ''acs''"
    "resolve ?d ''acs'' (JDict []) = JDict ?a"
    "resolve ?a ''memo_url'' JNone = JStr ''https://example.org/a--><b>''"
    by (simp_all add: resolve_def)
  from memo_only_inside_comment [OF h(1) h(2) out] obtain pre post where
    \<open>out = pre @ ''<!-- '' @ memo_link (resolve ?a ''memo_url'' JNone) @ '' -->'' @ post\<close>
    "visible False out = pre @ visible False post"
    by blast
  then show ?thesis
    unfolding h(3) using out
    by (intro exI [of _ out] exI [of _ pre] exI [of _ post]) simp
qed

text \<open>
  C6, as stated, fails in its last part: resolving a field can fail. A field is read
  with \<^verbatim>\<open>.get\<close>, a method of dicts only, so the record
  \<^verbatim>\<open>{"title": "SCP-173", "classic": "Euclid"}\<close>, whose \<^verbatim>\<open>classic\<close> is a string, makes
  \<^verbatim>\<open>render_classic_header\<close> raise AttributeError when it resolves the item number.
\<close>

theorem unshaped_record_counterexample:
  "render_classic_header (JDict [(''title'', JStr ''SCP-173''), (''classic'', JStr ''Euclid'')]) =
     Inl AttributeError"
  by code_simp

text \<open>
  C6, amended. Reading a field of a dict never fails and gives the value stored under
  the key, whatever it is, and the default only when the key is missing. With that
  reading of every field, the classic header, the ACS header, the footer and a section
  of a dict are their f-strings filled with the resolved fields: the renderers replace
  no value that is present, be it empty, by a default.
\<close>

theorem defaults_by_key_absence:
  "py_get (JDict kvs) k dflt = Inr (resolve kvs k dflt) \<and>
   (map_of kvs k = None \<longrightarrow> resolve kvs k dflt = dflt) \<and>
   (map_of kvs k = Some v \<longrightarrow> resolve kvs k dflt = v) \<and>
   (resolve d ''classic'' (JDict []) = JDict c \<longrightarrow>
    render_classic_header (JDict d) =
     Inr (py_strip
       (classic_header_fstring
          (esc (resolve d ''title''
                  (resolve c ''item_number'' (resolve d ''title'' (JStr ''SCP-XXXX'')))))
          (projr (subtitle_div (JDict d)))
          (esc (resolve c ''item_number'' (resolve d ''title'' (JStr ''SCP-XXXX''))))
          (esc (resolve c ''object_class'' (JStr ''Euclid'')))))) \<and>
   (resolve d ''acs'' (JDict []) = JDict a \<longrightarrow>
    render_acs_header (JDict d) =
     rbind (acs_badge ''Containment'' (resolve a ''containment_class'' (JStr ''euclid''))) (\<lambda>b1.
     rbind (acs_badge ''Secondary'' (resolve a ''secondary_class'' (JStr ''none''))) (\<lambda>b2.
     rbind (acs_badge ''Disruption'' (resolve a ''disruption_class'' (JStr ''none''))) (\<lambda>b3.
     rbind (acs_badge ''Risk'' (resolve a ''risk_class'' (JStr ''notice''))) (\<lambda>b4.
     Inr (py_strip
       (acs_header_fstring
          (esc (resolve d ''title'' (JStr ''SCP-XXXX'')))
          (projr (subtitle_div (JDict d)))
          (esc (resolve a ''item_number'' (resolve d ''title'' (JStr ''SCP-XXXX''))))
          (esc (JStr (clearance_line (resolve a ''clearance_level'' (JInt 2))
                        (resolve a ''clearance_label'' (JStr [])))))
          (memo_link (resolve a ''memo_url'' JNone)) b1 b2 b3 b4))))))) \<and>
   (resolve d ''footer'' (JDict []) = JDict f \<longrightarrow>
    render_footer (JDict d) =
     Inr (py_strip
       (footer_fstring
          (esc (resolve f ''left'' (JStr [CHR 0xAB])))
          (esc (resolve f ''center'' (resolve d ''title'' (JStr ''SCP''))))
          (esc (resolve f ''right'' (JStr [CHR 0xBB])))))) \<and>
   render_section (JDict s) =
     rbind (to_paragraphs (resolve s ''body'' JNone)) (\<lambda>paras.
     Inr (py_strip
       (section_fstring
          (''section'' @ (if resolve s ''kind'' JNone = JStr ''log'' then '' section--log'' else []))
          (esc (resolve s ''heading'' (JStr ''Section''))) paras)))"
  using classic_header_dict [of d c] acs_header_dict [of d a] footer_dict [of d f]
    section_dict [of s]
  by (simp add: resolve_def)

theorem defaults_by_key_absence_witness:
  "render_classic_header
     (JDict [(''title'', JStr ''T''),
             (''classic'', JDict [(''item_number'', JStr ''''), (''object_class'', JStr '''')]),
             (''footer'', JDict [(''left'', JStr ''''), (''center'', JStr '''')])]) =
     Inr (py_strip (classic_header_fstring ''T'' [] [] [])) \<and>
   render_footer
     (JDict [(''title'', JStr ''T''),
             (''classic'', JDict [(''item_number'', JStr ''''), (''object_class'', JStr '''')]),
             (''footer'', JDict [(''left'', JStr ''''), (''center'', JStr '''')])]) =
     Inr (py_strip (footer_fstring [] [] [CHR 0xBB])) \<and>
   render_classic_header (JDict [(''subtitle'', JStr '''')]) =
     Inr (py_strip (classic_header_fstring ''SCP-XXXX'' [] ''SCP-XXXX'' ''Euclid''))"
proof -
  let ?c = "[(''item_number'', JStr ''''), (''object_class'', JStr '''')]"
  let ?f = "[(''left'', JStr ''''), (''center'', JStr '''')]"
  let ?d = "[(''title'', JStr ''T''), (''classic'', JDict ?c), (''footer'', JDict ?f)]"
  have e: "esc (JStr ''T'') = ''T''" "esc (JStr []) = []" "esc (JStr [CHR 0xBB]) = [CHR 0xBB]"
    "esc (JStr ''SCP-XXXX'') = ''SCP-XXXX''" "esc (JStr ''Euclid'') = ''Euclid''"
    "projr (subtitle_div (JDict ?d)) = []"
    "projr (subtitle_div (JDict [(''subtitle'', JStr '''')])) = []"
    by code_simp+
  from defaults_by_key_absence [of _ _ _ _ ?d ?c "[]" ?f]
    defaults_by_key_absence [of _ _ _ _ "[(''subtitle'', JStr '''')]" "[]" "[]" "[]"] e
  show ?thesis
    by (simp add: resolve_def)
qed

text \<open>
  C2, as stated, fails: a sub-record that is not a dict makes the renderer raise. The
  fields of \<^verbatim>\<open>footer\<close>, \<^verbatim>\<open>acs\<close> and \<^verbatim>\<open>classic\<close> are read with \<^verbatim>\<open>.get\<close>, which a string,
  a list and a number do not have.
\<close>

theorem wrong_shape_counterexample:
  "build_html (JDict [(''title'', JStr ''SCP-173''), (''footer'', JStr ''x'')]) = Inl AttributeError \<and>
   build_html (JDict [(''header_mode'', JStr ''acs''), (''acs'', JList [])]) = Inl AttributeError \<and>
   build_html (JDict [(''classic'', JInt 5)]) = Inl AttributeError"
  by code_simp

text \<open>
  C2, amended. \<^verbatim>\<open>build_html\<close>, and with it every renderer it calls, returns a string
  for every record of the expected shape, whatever keys are missing; and reading a field
  of something that is not a dict raises AttributeError.
\<close>

theorem well_shaped_record_renders:
  "(well_shaped r \<longrightarrow> (\<exists>out. build_html r = Inr out)) \<and>
   (\<not> is_dict x \<longrightarrow> py_get x k dflt = Inl AttributeError)"
proof (intro conjI impI)
  assume w: "well_shaped r"
  then obtain d where r: "r = JDict d"
    by (cases r) (simp_all add: well_shaped_def)
  from w r obtain f where f: "resolve d ''footer'' (JDict []) = JDict f"
    using is_dictE by (auto simp: well_shaped_def)
  from w r obtain secs where s: "resolve d ''sections'' (JList []) = JList secs"
    "list_all section_ok secs"
    by (auto simp: well_shaped_def split: json.splits)
  then obtain st where st: "render_sections (JDict d) = Inr st"
    using render_sections_ok by blast
  have "\<exists>h. (if resolve d ''header_mode'' JNone = JStr ''acs''
              then render_acs_header (JDict d) else render_classic_header (JDict d)) = Inr h"
  proof (cases "resolve d ''header_mode'' JNone = JStr ''acs''")
    case True
    with w r obtain a where "resolve d ''acs'' (JDict []) = JDict a" "axes_ok a"
      by (auto simp: well_shaped_def split: json.splits)
    with True show ?thesis using render_acs_header_ok by simp
  next
    case False
    with w r obtain c where "resolve d ''classic'' (JDict []) = JDict c"
      using is_dictE by (auto simp: well_shaped_def)
    with False show ?thesis by (simp add: classic_header_dict)
  qed
  then obtain h where h: "(if resolve d ''header_mode'' JNone = JStr ''acs''
              then render_acs_header (JDict d) else render_classic_header (JDict d)) = Inr h"
    by blast
  show "\<exists>out. build_html r = Inr out"
    unfolding r build_html_def py_get_dict rbind_Inr h st footer_dict [OF f] by simp
next
  assume "\<not> is_dict x"
  then show "py_get x k dflt = Inl AttributeError"
    by (cases x) (simp_all add: is_dict_def py_get_def)
qed

theorem well_shaped_record_renders_witness:
  "well_shaped example_record \<and> (\<exists>out. build_html example_record = Inr out) \<and>
   well_shaped (JDict []) \<and> (\<exists>out. build_html (JDict []) = Inr out) \<and>
   \<not> is_dict (JStr ''x'') \<and> py_get (JStr ''x'') ''left'' (JStr [CHR 0xAB]) = Inl AttributeError"
proof -
  have w: "well_shaped example_record" "well_shaped (JDict [])" "\<not> is_dict (JStr ''x'')"
    by code_simp+
  from well_shaped_record_renders [of example_record "JStr ''x''" "''left''" "JStr [CHR 0xAB]"]
    well_shaped_record_renders [of "JDict []" "JStr ''x''" "''left''" "JStr [CHR 0xAB]"] w
  show ?thesis by blast
qed

text \<open>
  C1. Every page that \<^verbatim>\<open>build_html\<close> returns is escaped markup: it is made of the
  f-strings of the source, and every value of the record that reaches it does so as
  \<^verbatim>\<open>html.escape(str(value), quote=True)\<close>, in text and in attribute position alike. So
  the angle brackets of the page are those of the templates, as many \<^verbatim>\<open><\<close> as \<^verbatim>\<open>>\<close>, and
  its quotes come in pairs. An escaped value is the value with each of \<^verbatim>\<open>&\<close>, \<^verbatim>\<open><\<close>,
  \<^verbatim>\<open>>\<close> and the two quotes replaced by its entity: it has none of \<^verbatim>\<open><\<close>, \<^verbatim>\<open>>\<close> and the
  quotes, and each \<^verbatim>\<open>&\<close> in it starts an entity.
\<close>

theorem interpolated_values_escaped:
  "(build_html x = Inr out \<longrightarrow> out \<in> escaped_markup \<and> balanced out) \<and>
   esc v = concat (map (\<lambda>c. if c = CHR ''&'' then ''&amp;'' else if c = CHR ''<'' then ''&lt;''
       else if c = CHR ''>'' then ''&gt;'' else if c = CHR 0x22 then ''&quot;''
       else if c = CHR 0x27 then ''&#x27;'' else [c]) (py_str v)) \<and>
   CHR ''<'' \<notin> set (esc v) \<and> CHR ''>'' \<notin> set (esc v) \<and>
   CHR 0x22 \<notin> set (esc v) \<and> CHR 0x27 \<notin> set (esc v) \<and> amp_ok (esc v)"
proof -
  have "out \<in> escaped_markup \<and> balanced out" if "build_html x = Inr out"
    using build_html_markup [OF that] markup_balanced by blast
  moreover have "esc v = concat (map (\<lambda>c. if c = CHR ''&'' then ''&amp;'' else if c = CHR ''<'' then ''&lt;''
       else if c = CHR ''>'' then ''&gt;'' else if c = CHR 0x22 then ''&quot;''
       else if c = CHR 0x27 then ''&#x27;'' else [c]) (py_str v))"
    unfolding esc_def by (rule html_escape_char)
  moreover have "amp_ok (esc v)"
    unfolding esc_def by (rule amp_ok_escape)
  ultimately show ?thesis
    using esc_set [of v] by blast
qed

theorem interpolated_values_escaped_witness:
  \<open>\<exists>out.
     build_html
       (JDict [(''title'', JStr ''<script>"&</script>''),
               (''subtitle'', JStr ''<i>''),
               (''header_mode'', JStr ''acs''),
               (''acs'', JDict [(''item_number'', JStr ''"><b>''),
                                (''clearance_label'', JStr ''<u>''),
                                (''containment_class'', JStr ''Safe''),
                                (''memo_url'', JStr ''x-->&'')]),
               (''sections'', JList [JDict [(''heading'', JStr ''<h1>''),
                                            (''body'', JList [JStr '' <p> '', JStr ''&amp;''])]]),
               (''footer'', JDict [(''left'', JStr ''<'')])]) = Inr out \<and>
     out \<in> escaped_markup \<and> balanced out\<close>
proof -
  let ?r = \<open>JDict [(''title'', JStr ''<script>"&</script>''),
               (''subtitle'', JStr ''<i>''),
               (''header_mode'', JStr ''acs''),
               (''acs'', JDict [(''item_number'', JStr ''"><b>''),
                                (''clearance_label'', JStr ''<u>''),
                                (''containment_class'', JStr ''Safe''),
                                (''memo_url'', JStr ''x-->&'')]),
               (''sections'', JList [JDict [(''heading'', JStr ''<h1>''),
                                            (''body'', JList [JStr '' <p> '', JStr ''&amp;''])]]),
               (''footer'', JDict [(''left'', JStr ''<'')])]\<close>
  have "\<not> isl (build_html ?r)" by code_simp
  then obtain out where out: "build_html ?r = Inr out"
    by (cases "build_html ?r") auto
  from interpolated_values_escaped [of ?r out] out show ?thesis
    by blast
qed

end
